theory Spec2Isabelle
  imports Complex_Main
begin

section \<open>Energy management: the data model\<close>

text \<open>
  The types follow \<^verbatim>\<open>types-user-experience.ts\<close>; the functions follow
  \<^verbatim>\<open>src/utils/energy-management.ts\<close>.

  Conventions of the embedding.
  \<^item> A JavaScript number that is always finite in the code is a \<^typ>\<open>rat\<close>: the
    values are small integers, their sums, and quotients of those by a positive count,
    and the literals \<open>0.1\<close>, \<open>0.5\<close>, \<open>0.7\<close>, \<open>0.8\<close> are the rationals they
    denote. Hours, days of the week and ratings are \<^typ>\<open>nat\<close>.
  \<^item> \<^verbatim>\<open>calculateProductivityMetrics\<close> divides by a length that can be zero, so its
    numbers are of the type \<open>jsnumber\<close> below, which has \<open>NaN\<close> and the infinities.
  \<^item> A timestamp is the number of milliseconds since the epoch (an \<^typ>\<open>int\<close>): the
    source stores \<^verbatim>\<open>new Date().toISOString()\<close> and reads it back with
    \<^verbatim>\<open>new Date(point.timestamp)\<close>, which is the identity on millisecond times.
  \<^item> The clock is an argument \<open>now\<close>; a function that reads \<^verbatim>\<open>Date.now()\<close> or
    \<^verbatim>\<open>new Date()\<close> several times during one synchronous call gets the same
    instant each time.
  \<^item> Local time is UTC shifted by \<open>tz\<close> minutes (a zone with a fixed offset).
  \<^item> An optional field is an \<^typ>\<open>'a option\<close>; \<open>None\<close> is \<^verbatim>\<open>undefined\<close>.
  \<^item> A \<^verbatim>\<open>Map\<close> is an association list in insertion order, which is the order
    \<^verbatim>\<open>entries()\<close> and \<^verbatim>\<open>forEach\<close> iterate in.
  \<^item> A field keeps its name in the source where the name is free. Where two interfaces
    share a field name the later record prefixes it: \<open>slotEnergyLevel\<close>,
    \<open>contextDayOfWeek\<close>, \<open>suggestionId\<close>, \<open>suggestionType\<close>, \<open>personaType\<close>,
    \<open>personaRecommendations\<close>, \<open>feedbackTimestamp\<close>, \<open>feedbackNotes\<close>.
\<close>

datatype EnergyLevel = VeryLow | Low | Medium | High | VeryHigh

datatype SleepQuality = Poor | Fair | Good | Excellent

datatype Meals = MealsEmpty | MealsLight | MealsFull

datatype Stress = StressLow | StressMedium | StressHigh

record EnergyContext =
  timeOfDay :: string
  dayOfWeek :: nat
  weather :: "string option"
  sleepQuality :: "SleepQuality option"
  caffeine :: "bool option"
  exercise :: "bool option"
  meals :: "Meals option"
  stress :: "Stress option"

text \<open>The field \<^verbatim>\<open>context\<close> is written \<open>context'\<close>: the plain name is reserved.\<close>

record EnergyDataPoint =
  timestamp :: int
  energyLevel :: EnergyLevel
  context' :: "EnergyContext option"
  productivity :: "rat option"
  sessionCompleted :: "bool option"

datatype PatternType = Daily | Weekly | Monthly

record PatternEntry =
  timeSlot :: string
  averageEnergy :: rat
  confidence :: rat

record EnergyPattern =
  type :: PatternType
  pattern :: "PatternEntry list"
  recommendations :: "string list"

record SuitabilityScores =
  reading :: rat
  writing :: rat
  problemSolving :: rat
  creative :: rat
  review :: rat

record TimeSlot =
  startHour :: nat
  endHour :: nat
  slotEnergyLevel :: rat
  suitabilityScores :: SuitabilityScores

datatype TaskType =
  Reading | Writing | ProblemSolving | Creative | Review | Research | Practice | Memorization

record AdaptivePreferences =
  adjustDifficultyByEnergy :: bool
  suggestBreaksBasedOnEnergy :: bool
  adaptSessionLengthByEnergy :: bool
  enableEnergyNotifications :: bool
  autoRescheduleOnLowEnergy :: bool
  preferredLowEnergyActivities :: "TaskType list"
  preferredHighEnergyActivities :: "TaskType list"

record UserEnergyProfile =
  currentEnergyLevel :: EnergyLevel
  energyHistory :: "EnergyDataPoint list"
  optimalStudyTimes :: "TimeSlot list"
  energyPatterns :: "EnergyPattern list"
  lastUpdated :: int
  adaptivePreferences :: AdaptivePreferences

datatype UserPresence = Active | Idle | Away

datatype DeviceType = Mobile | Tablet | Desktop

datatype NetworkStatus = Online | Offline | Slow

datatype AmbientLight = Bright | MediumLight | Dim

datatype LocationContext = Home | Library | Cafe | Transport | Other

record RealTimeContext =
  currentTime :: int
  contextDayOfWeek :: nat
  userPresence :: UserPresence
  deviceType :: DeviceType
  networkStatus :: NetworkStatus
  batteryLevel :: "rat option"
  ambientLight :: "AmbientLight option"
  locationContext :: "LocationContext option"

datatype SuggestionType = EnergyBased | ContextBased | PatternBased | Urgent

datatype Priority = PriorityLow | PriorityMedium | PriorityHigh | PriorityCritical

datatype Category =
  CategoryScheduling | CategoryEnergy | CategoryProductivity | CategoryBreak | CategorySession

text \<open>
  The two callbacks of a suggestion only log a fixed message; the model keeps the
  message. The icon is an emoji, kept as the name of its code point.
\<close>

record SmartSuggestion =
  suggestionId :: string
  suggestionType :: SuggestionType
  priority :: Priority
  title :: string
  description :: string
  actionText :: string
  onAccept :: string
  onDismiss :: string
  expiresAt :: "string option"
  icon :: string
  category :: Category

text \<open>
  Of \<^verbatim>\<open>RealTimeUserExperience\<close> the functions below read \<^verbatim>\<open>energyProfile\<close> and
  \<^verbatim>\<open>currentContext\<close> only.
\<close>

record RealTimeUserExperience =
  energyProfile :: UserEnergyProfile
  currentContext :: RealTimeContext

text \<open>
  \<^verbatim>\<open>Task\<close> comes from \<^verbatim>\<open>../types\<close>; the code reads its \<^verbatim>\<open>status\<close> and
  \<^verbatim>\<open>taskType\<close> and compares them with string literals.
\<close>

record Task =
  status :: string
  taskType :: string

datatype PersonaType = EarlyBird | NightOwl | Flexible | Inconsistent

record UserPersona =
  personaType :: PersonaType
  characteristics :: "string list"
  optimalScheduling :: "string list"
  challenges :: "string list"
  personaRecommendations :: "string list"
  confidenceLevel :: rat

record SessionFeedback =
  sessionId :: string
  feedbackTimestamp :: int
  difficultyRating :: nat
  energyBefore :: nat
  energyAfter :: nat
  focusRating :: nat
  environmentRating :: nat
  satisfaction :: nat
  distractions :: "string list"
  feedbackNotes :: "string option"
  recommendNextSession :: "bool option"

datatype jsnumber = Num rat | PosInf | NegInf | NaN

record ProductivityMetrics =
  focusScore :: jsnumber
  completionRate :: jsnumber
  consistencyScore :: jsnumber
  energyUtilization :: jsnumber
  adaptationSuccess :: jsnumber
  streakQuality :: jsnumber
  timeOptimization :: jsnumber

text \<open>
  The values of the three maps. \<open>completedCount\<close> is the field \<^verbatim>\<open>completionRate\<close>
  of the \<^verbatim>\<open>hourlyPerformance\<close> entries, which the loop uses as a counter.
\<close>

record HourlyData =
  total :: rat
  count :: rat
  energySum :: rat

record WeeklyData =
  weekEnergySum :: rat
  weekCount :: rat

record HourlyPerformance =
  perfEnergySum :: rat
  productivitySum :: rat
  perfCount :: rat
  completedCount :: rat

section \<open>JavaScript primitives\<close>

definition thirtyDays :: int where
  "thirtyDays = 30 * 24 * 60 * 60 * 1000"

definition oneHour :: int where
  "oneHour = 60 * 60 * 1000"

definition getHours :: "int \<Rightarrow> int \<Rightarrow> nat" where
  "getHours tz t = nat (((t + tz * 60000) div 3600000) mod 24)"

text \<open>The first of January 1970 was a Thursday, day 4 of the week that starts on Sunday.\<close>

definition getDay :: "int \<Rightarrow> int \<Rightarrow> nat" where
  "getDay tz t = nat ((((t + tz * 60000) div 86400000) + 4) mod 7)"

definition digitChar :: "nat \<Rightarrow> char" where
  "digitChar d = ''0123456789'' ! (d mod 10)"

fun show_nat :: "nat \<Rightarrow> string" where
  "show_nat n = (if n < 10 then [digitChar n] else show_nat (n div 10) @ [digitChar n])"

declare show_nat.simps [simp del]

definition show_int :: "int \<Rightarrow> string" where
  "show_int i = (if i < 0 then CHR ''-'' # show_nat (nat (- i)) else show_nat (nat i))"

text \<open>
  Comparison of strings with \<^verbatim>\<open><=\<close>: lexicographic on the code units, a proper
  prefix first.
\<close>

fun str_le :: "string \<Rightarrow> string \<Rightarrow> bool" where
  "str_le [] ys = True"
| "str_le (x # xs) [] = False"
| "str_le (x # xs) (y # ys) =
     (if (of_char x :: nat) < of_char y then True
      else if (of_char y :: nat) < of_char x then False
      else str_le xs ys)"

text \<open>\<^verbatim>\<open>x || 0\<close> on a number, and on a value that may be \<^verbatim>\<open>undefined\<close>.\<close>

definition orZero :: "rat \<Rightarrow> rat" where
  "orZero x = (if x = 0 then 0 else x)"

definition orZeroOpt :: "rat option \<Rightarrow> rat" where
  "orZeroOpt x = (case x of None \<Rightarrow> 0 | Some v \<Rightarrow> orZero v)"

subsection \<open>Maps in insertion order\<close>

definition has :: "('k \<times> 'v) list \<Rightarrow> 'k \<Rightarrow> bool" where
  "has m k = (map_of m k \<noteq> None)"

definition mapSet :: "'k \<Rightarrow> 'v \<Rightarrow> ('k \<times> 'v) list \<Rightarrow> ('k \<times> 'v) list" where
  "mapSet k v m =
     (if has m k then map (\<lambda>(k', v'). if k' = k then (k', v) else (k', v')) m
      else m @ [(k, v)])"

text \<open>
  \<^verbatim>\<open>const data = m.get(k)!\<close> followed by assignments to fields of \<open>data\<close>: the
  object stored under \<open>k\<close> is updated in place. Each loop sets the key before it gets it.
\<close>

definition mapModify :: "'k \<Rightarrow> ('v \<Rightarrow> 'v) \<Rightarrow> ('k \<times> 'v) list \<Rightarrow> ('k \<times> 'v) list" where
  "mapModify k f m = map (\<lambda>(k', v'). if k' = k then (k', f v') else (k', v')) m"

subsection \<open>Numbers that can be NaN\<close>

fun jsNeg :: "jsnumber \<Rightarrow> jsnumber" where
  "jsNeg (Num a) = Num (- a)"
| "jsNeg PosInf = NegInf"
| "jsNeg NegInf = PosInf"
| "jsNeg NaN = NaN"

fun jsAdd :: "jsnumber \<Rightarrow> jsnumber \<Rightarrow> jsnumber" where
  "jsAdd NaN y = NaN"
| "jsAdd x NaN = NaN"
| "jsAdd (Num a) (Num b) = Num (a + b)"
| "jsAdd PosInf NegInf = NaN"
| "jsAdd NegInf PosInf = NaN"
| "jsAdd PosInf y = PosInf"
| "jsAdd NegInf y = NegInf"
| "jsAdd (Num a) y = y"

definition jsSub :: "jsnumber \<Rightarrow> jsnumber \<Rightarrow> jsnumber" where
  "jsSub x y = jsAdd x (jsNeg y)"

definition jsInf :: "bool \<Rightarrow> jsnumber" where
  "jsInf positive = (if positive then PosInf else NegInf)"

fun jsMul :: "jsnumber \<Rightarrow> jsnumber \<Rightarrow> jsnumber" where
  "jsMul NaN y = NaN"
| "jsMul x NaN = NaN"
| "jsMul (Num a) (Num b) = Num (a * b)"
| "jsMul (Num a) PosInf = (if a = 0 then NaN else jsInf (0 < a))"
| "jsMul (Num a) NegInf = (if a = 0 then NaN else jsInf (a < 0))"
| "jsMul PosInf (Num b) = (if b = 0 then NaN else jsInf (0 < b))"
| "jsMul NegInf (Num b) = (if b = 0 then NaN else jsInf (b < 0))"
| "jsMul PosInf PosInf = PosInf"
| "jsMul NegInf NegInf = PosInf"
| "jsMul PosInf NegInf = NegInf"
| "jsMul NegInf PosInf = NegInf"

text \<open>Every divisor in the code is a length, so a zero divisor is the positive zero.\<close>

fun jsDiv :: "jsnumber \<Rightarrow> jsnumber \<Rightarrow> jsnumber" where
  "jsDiv NaN y = NaN"
| "jsDiv x NaN = NaN"
| "jsDiv (Num a) (Num b) =
     (if b \<noteq> 0 then Num (a / b) else if a = 0 then NaN else jsInf (0 < a))"
| "jsDiv (Num a) y = Num 0"
| "jsDiv PosInf (Num b) = jsInf (0 \<le> b)"
| "jsDiv NegInf (Num b) = jsInf (b < 0)"
| "jsDiv x y = NaN"

fun jsMax :: "jsnumber \<Rightarrow> jsnumber \<Rightarrow> jsnumber" where
  "jsMax NaN y = NaN"
| "jsMax x NaN = NaN"
| "jsMax PosInf y = PosInf"
| "jsMax x PosInf = PosInf"
| "jsMax NegInf y = y"
| "jsMax x NegInf = x"
| "jsMax (Num a) (Num b) = Num (max a b)"

fun jsRound :: "jsnumber \<Rightarrow> jsnumber" where
  "jsRound (Num a) = Num (of_int \<lfloor>a + 1 / 2\<rfloor>)"
| "jsRound x = x"

definition jsPow2 :: "jsnumber \<Rightarrow> jsnumber" where
  "jsPow2 x = jsMul x x"

section \<open>The functions of energy-management.ts\<close>

definition defaultAdaptivePreferences :: AdaptivePreferences where
  "defaultAdaptivePreferences =
     \<lparr>adjustDifficultyByEnergy = True,
      suggestBreaksBasedOnEnergy = True,
      adaptSessionLengthByEnergy = True,
      enableEnergyNotifications = True,
      autoRescheduleOnLowEnergy = False,
      preferredLowEnergyActivities = [Reading, Review],
      preferredHighEnergyActivities = [ProblemSolving, Creative, Writing]\<rparr>"

definition initializeEnergyProfile :: "int \<Rightarrow> UserEnergyProfile" where
  "initializeEnergyProfile now =
     \<lparr>currentEnergyLevel = Medium,
      energyHistory = [],
      optimalStudyTimes = [],
      energyPatterns = [],
      lastUpdated = now,
      adaptivePreferences = defaultAdaptivePreferences\<rparr>"

subsection \<open>Helper functions\<close>

fun energyLevelToNumber :: "EnergyLevel \<Rightarrow> rat" where
  "energyLevelToNumber VeryLow = 1"
| "energyLevelToNumber Low = 2"
| "energyLevelToNumber Medium = 3"
| "energyLevelToNumber High = 4"
| "energyLevelToNumber VeryHigh = 5"

text \<open>
  \<^verbatim>\<open>days[dayIndex]\<close> is \<^verbatim>\<open>undefined\<close> off the table, which a template literal
  prints as the word; every index the code passes is a day of the week.
\<close>

definition getDayName :: "nat \<Rightarrow> string" where
  "getDayName dayIndex =
     (let days = [''Sunday'', ''Monday'', ''Tuesday'', ''Wednesday'', ''Thursday'',
                  ''Friday'', ''Saturday'']
      in if dayIndex < length days then days ! dayIndex else ''undefined'')"

definition calculateSuitabilityScores :: "rat \<Rightarrow> rat \<Rightarrow> SuitabilityScores" where
  "calculateSuitabilityScores energy productivity' =
     \<lparr>reading = min 100 (energy * 20 + productivity' * 5),
      writing = min 100 (energy * 25 + productivity' * 10),
      problemSolving = min 100 (energy * 30 + productivity' * 15),
      creative = min 100 (energy * 25 + productivity' * 12),
      review = min 100 (energy * 15 + productivity' * 8)\<rparr>"

text \<open>
  \<^verbatim>\<open>hourlyData.get(max)?.[0]\<close>: the property \<^verbatim>\<open>0\<close> of the object stored under
  \<open>max\<close>. The objects of both maps have named fields only, so the property is
  \<^verbatim>\<open>undefined\<close> whether or not the key is present.
\<close>

definition getIndex0 :: "(nat \<times> 'v) list \<Rightarrow> nat \<Rightarrow> rat option" where
  "getIndex0 m k = (case map_of m k of None \<Rightarrow> None | Some obj \<Rightarrow> None)"

definition peakHourOf :: "(nat \<times> HourlyData) list \<Rightarrow> nat" where
  "peakHourOf hourlyData =
     foldl (\<lambda>mx (hour, data).
              if energySum data / count data > orZeroOpt (getIndex0 hourlyData mx)
              then hour else mx)
           0 hourlyData"

definition generateDailyRecommendations :: "(nat \<times> HourlyData) list \<Rightarrow> string list" where
  "generateDailyRecommendations hourlyData =
     [''Your peak energy hour is '' @ show_nat (peakHourOf hourlyData)
        @ '':00 - schedule important tasks then'']"

definition bestDayOf :: "(nat \<times> WeeklyData) list \<Rightarrow> nat" where
  "bestDayOf weeklyData =
     foldl (\<lambda>mx (day, data).
              if weekEnergySum data / weekCount data > orZeroOpt (getIndex0 weeklyData mx)
              then day else mx)
           0 weeklyData"

definition generateWeeklyRecommendations :: "(nat \<times> WeeklyData) list \<Rightarrow> string list" where
  "generateWeeklyRecommendations weeklyData =
     [getDayName (bestDayOf weeklyData) @ '' is your most productive day'']"

subsection \<open>analyzePatternsFromHistory\<close>

definition hourlyStep ::
  "int \<Rightarrow> (nat \<times> HourlyData) list \<Rightarrow> EnergyDataPoint \<Rightarrow> (nat \<times> HourlyData) list" where
  "hourlyStep tz hourlyData point =
     (let hour = getHours tz (timestamp point);
          energyValue = energyLevelToNumber (energyLevel point);
          m = (if \<not> has hourlyData hour
               then mapSet hour \<lparr>total = 0, count = 0, energySum = 0\<rparr> hourlyData
               else hourlyData)
      in mapModify hour
           (\<lambda>data. data\<lparr>count := count data + 1, energySum := energySum data + energyValue\<rparr>)
           m)"

definition weeklyStep ::
  "int \<Rightarrow> (nat \<times> WeeklyData) list \<Rightarrow> EnergyDataPoint \<Rightarrow> (nat \<times> WeeklyData) list" where
  "weeklyStep tz weeklyData point =
     (let dayOfWeek = getDay tz (timestamp point);
          energyValue = energyLevelToNumber (energyLevel point);
          m = (if \<not> has weeklyData dayOfWeek
               then mapSet dayOfWeek \<lparr>weekEnergySum = 0, weekCount = 0\<rparr> weeklyData
               else weeklyData)
      in mapModify dayOfWeek
           (\<lambda>data. data\<lparr>weekCount := weekCount data + 1,
                         weekEnergySum := weekEnergySum data + energyValue\<rparr>)
           m)"

definition hourLabel :: "nat \<Rightarrow> string" where
  "hourLabel hour = show_nat hour @ '':00''"

definition analyzePatternsFromHistory :: "int \<Rightarrow> EnergyDataPoint list \<Rightarrow> EnergyPattern list" where
  "analyzePatternsFromHistory tz history =
     (if length history < 7 then []
      else
        (let hourlyData = foldl (hourlyStep tz) [] history;
             dailyPattern =
               \<lparr>type = Daily,
                pattern = map (\<lambda>(hour, data).
                                 \<lparr>timeSlot = hourLabel hour,
                                  averageEnergy = energySum data / count data,
                                  confidence = min (count data / 7) 1\<rparr>)
                              hourlyData,
                recommendations = generateDailyRecommendations hourlyData\<rparr>;
             weeklyData = foldl (weeklyStep tz) [] history;
             weeklyPattern =
               \<lparr>type = Weekly,
                pattern = map (\<lambda>(day, data).
                                 \<lparr>timeSlot = getDayName day,
                                  averageEnergy = weekEnergySum data / weekCount data,
                                  confidence = min (weekCount data / 4) 1\<rparr>)
                              weeklyData,
                recommendations = generateWeeklyRecommendations weeklyData\<rparr>
         in [dailyPattern, weeklyPattern]))"

subsection \<open>calculateOptimalStudyTimes\<close>

definition perfStep ::
  "int \<Rightarrow> (nat \<times> HourlyPerformance) list \<Rightarrow> EnergyDataPoint
     \<Rightarrow> (nat \<times> HourlyPerformance) list" where
  "perfStep tz hourlyPerformance point =
     (let hour = getHours tz (timestamp point);
          energyValue = energyLevelToNumber (energyLevel point);
          m = (if \<not> has hourlyPerformance hour
               then mapSet hour
                      \<lparr>perfEnergySum = 0, productivitySum = 0, perfCount = 0,
                       completedCount = 0\<rparr>
                      hourlyPerformance
               else hourlyPerformance)
      in mapModify hour
           (\<lambda>data.
              let d1 = data\<lparr>perfCount := perfCount data + 1,
                            perfEnergySum := perfEnergySum data + energyValue\<rparr>;
                  d2 = (case productivity point of
                          None \<Rightarrow> d1
                        | Some pr \<Rightarrow>
                            if pr \<noteq> 0 then d1\<lparr>productivitySum := productivitySum d1 + pr\<rparr>
                            else d1)
              in if sessionCompleted point = Some True
                 then d2\<lparr>completedCount := completedCount d2 + 1\<rparr>
                 else d2)
           m)"

text \<open>The body of the second loop: the slot an hour contributes, if any.\<close>

definition slotFor :: "nat \<Rightarrow> HourlyPerformance \<Rightarrow> TimeSlot list" where
  "slotFor hour data =
     (let avgEnergy = perfEnergySum data / perfCount data;
          avgProductivity = orZero (productivitySum data / perfCount data);
          rate = completedCount data / perfCount data
      in if avgEnergy \<ge> 3 \<and> rate \<ge> 7 / 10
         then [\<lparr>startHour = hour,
                endHour = hour + 1,
                slotEnergyLevel = avgEnergy,
                suitabilityScores = calculateSuitabilityScores avgEnergy avgProductivity\<rparr>]
         else [])"

text \<open>
  \<^verbatim>\<open>timeSlots.sort((a, b) => b.energyLevel - a.energyLevel)\<close>: a stable sort by
  decreasing energy level.
\<close>

definition calculateOptimalStudyTimes :: "int \<Rightarrow> EnergyDataPoint list \<Rightarrow> TimeSlot list" where
  "calculateOptimalStudyTimes tz history =
     (if length history < 7 then []
      else
        (let hourlyPerformance = foldl (perfStep tz) [] history;
             timeSlots = concat (map (\<lambda>(hour, data). slotFor hour data) hourlyPerformance)
         in sort_key (\<lambda>slot. - slotEnergyLevel slot) timeSlots))"

subsection \<open>recordEnergyData\<close>

definition recordEnergyData ::
  "int \<Rightarrow> int \<Rightarrow> UserEnergyProfile \<Rightarrow> EnergyLevel \<Rightarrow> EnergyContext option \<Rightarrow> rat option
     \<Rightarrow> bool option \<Rightarrow> UserEnergyProfile" where
  "recordEnergyData tz now currentProfile level ctx productivity' sessionCompleted' =
     (let dataPoint =
            \<lparr>timestamp = now, energyLevel = level, context' = ctx,
             productivity = productivity', sessionCompleted = sessionCompleted'\<rparr>;
          updatedHistory = energyHistory currentProfile @ [dataPoint];
          thirtyDaysAgo = now - thirtyDays;
          filteredHistory = filter (\<lambda>point. timestamp point > thirtyDaysAgo) updatedHistory
      in currentProfile
           \<lparr>currentEnergyLevel := level,
            energyHistory := filteredHistory,
            lastUpdated := now,
            energyPatterns := analyzePatternsFromHistory tz filteredHistory,
            optimalStudyTimes := calculateOptimalStudyTimes tz filteredHistory\<rparr>)"

subsection \<open>generateSmartSuggestions\<close>

definition lowEnergySuggestion :: "int \<Rightarrow> SmartSuggestion" where
  "lowEnergySuggestion now =
     \<lparr>suggestionId = ''energy-low-'' @ show_int now,
      suggestionType = EnergyBased,
      priority = PriorityHigh,
      title = ''Low Energy Detected'',
      description =
        ''Consider taking a break or switching to lighter tasks like reading or review.'',
      actionText = ''Suggest Light Tasks'',
      onAccept = ''Suggesting light tasks'',
      onDismiss = ''Dismissed'',
      expiresAt = None,
      icon = ''U+1F634'',
      category = CategoryEnergy\<rparr>"

definition highEnergySuggestion :: "int \<Rightarrow> SmartSuggestion" where
  "highEnergySuggestion now =
     \<lparr>suggestionId = ''energy-high-'' @ show_int now,
      suggestionType = EnergyBased,
      priority = PriorityMedium,
      title = ''High Energy - Perfect for Challenging Tasks!'',
      description =
        ''You have high energy right now. Great time for problem-solving or creative work.'',
      actionText = ''Start Difficult Task'',
      onAccept = ''Starting difficult task'',
      onDismiss = ''Dismissed'',
      expiresAt = None,
      icon = ''U+26A1'',
      category = CategoryScheduling\<rparr>"

definition optimalTimeSuggestion :: "int \<Rightarrow> SmartSuggestion" where
  "optimalTimeSuggestion now =
     \<lparr>suggestionId = ''optimal-time-'' @ show_int now,
      suggestionType = PatternBased,
      priority = PriorityMedium,
      title = ''This is your optimal study time!'',
      description = ''Based on your patterns, you're most productive at this time.'',
      actionText = ''Start Study Session'',
      onAccept = ''Starting optimal session'',
      onDismiss = ''Dismissed'',
      expiresAt = None,
      icon = ''U+1F3AF'',
      category = CategoryScheduling\<rparr>"

definition breakSuggestion :: "int \<Rightarrow> SmartSuggestion" where
  "breakSuggestion now =
     \<lparr>suggestionId = ''break-suggestion-'' @ show_int now,
      suggestionType = ContextBased,
      priority = PriorityMedium,
      title = ''Time for a break?'',
      description =
        ''You've been working for a while. A short break might help maintain your energy.'',
      actionText = ''Take Break'',
      onAccept = ''Taking break'',
      onDismiss = ''Dismissed'',
      expiresAt = None,
      icon = ''U+2615'',
      category = CategoryBreak\<rparr>"

text \<open>
  The samples the last rule looks at: those stamped later than one hour before \<open>now\<close>.
\<close>

definition recentActivity :: "int \<Rightarrow> EnergyDataPoint list \<Rightarrow> EnergyDataPoint list" where
  "recentActivity now history = filter (\<lambda>point. timestamp point > now - oneHour) history"

definition generateSmartSuggestions ::
  "int \<Rightarrow> int \<Rightarrow> RealTimeUserExperience \<Rightarrow> Task list \<Rightarrow> 'plan list \<Rightarrow> SmartSuggestion list" where
  "generateSmartSuggestions tz now userExperience tasks studyPlans =
     (let profile = energyProfile userExperience;
          ctx = currentContext userExperience;
          lowRule =
            (if currentEnergyLevel profile = VeryLow \<or> currentEnergyLevel profile = Low
             then [lowEnergySuggestion now] else []);
          highRule =
            (if currentEnergyLevel profile = High \<or> currentEnergyLevel profile = VeryHigh
             then
               (let difficultTasks =
                      filter (\<lambda>task. status task \<noteq> ''completed'' \<and>
                                (taskType task = ''problem-solving'' \<or>
                                 taskType task = ''creative''))
                             tasks
                in if length difficultTasks > 0 then [highEnergySuggestion now] else [])
             else []);
          currentHour = getHours tz (currentTime ctx);
          optimalTime =
            find (\<lambda>slot. startHour slot \<le> currentHour \<and> endHour slot > currentHour)
                 (optimalStudyTimes profile);
          timeRule = (if optimalTime \<noteq> None then [optimalTimeSuggestion now] else []);
          recent = recentActivity now (energyHistory profile);
          breakRule =
            (if length recent \<ge> 4 \<and> \<not> list_ex (\<lambda>point. energyLevel point = Low) recent
             then [breakSuggestion now] else [])
      in lowRule @ highRule @ timeRule @ breakRule)"

subsection \<open>determineUserPersona\<close>

definition inconsistentPersona :: UserPersona where
  "inconsistentPersona =
     \<lparr>personaType = Inconsistent,
      characteristics = [''Insufficient data for pattern recognition''],
      optimalScheduling = [''Start with flexible scheduling''],
      challenges = [''Building consistent habits''],
      personaRecommendations = [''Track energy levels for a few more days''],
      confidenceLevel = 1 / 10\<rparr>"

definition earlyBirdPersona :: UserPersona where
  "earlyBirdPersona =
     \<lparr>personaType = EarlyBird,
      characteristics =
        [''High morning energy'', ''Prefers early starts'', ''Productive in first half of day''],
      optimalScheduling = [''Schedule important tasks 6-10 AM'', ''Light tasks in afternoon''],
      challenges = [''Maintaining energy in evenings'', ''Late deadlines''],
      personaRecommendations = [''Front-load your day'', ''Plan easier tasks for afternoons''],
      confidenceLevel = 8 / 10\<rparr>"

definition nightOwlPersona :: UserPersona where
  "nightOwlPersona =
     \<lparr>personaType = NightOwl,
      characteristics =
        [''Higher evening energy'', ''Slow morning starts'', ''Peak performance later''],
      optimalScheduling = [''Light tasks in morning'', ''Important work 6-10 PM''],
      challenges = [''Morning commitments'', ''Early deadlines''],
      personaRecommendations =
        [''Save challenging work for evening'', ''Use mornings for routine tasks''],
      confidenceLevel = 8 / 10\<rparr>"

definition flexiblePersona :: UserPersona where
  "flexiblePersona =
     \<lparr>personaType = Flexible,
      characteristics = [''Consistent energy throughout day'', ''Adaptable to schedules''],
      optimalScheduling = [''Balanced throughout day'', ''Can adapt to constraints''],
      challenges = [''May lack strong optimization opportunities''],
      personaRecommendations =
        [''Focus on task prioritization'', ''Optimize based on other factors''],
      confidenceLevel = 7 / 10\<rparr>"

text \<open>
  \<^verbatim>\<open>.filter(p => p.timeSlot >= lo && p.timeSlot <= hi).reduce(..., 0) / 4\<close>, the
  comparisons being those of strings.
\<close>

definition labelRangeEnergy :: "string \<Rightarrow> string \<Rightarrow> PatternEntry list \<Rightarrow> rat" where
  "labelRangeEnergy lo hi entries =
     foldl (\<lambda>sum p. sum + averageEnergy p) 0
           (filter (\<lambda>p. str_le lo (timeSlot p) \<and> str_le (timeSlot p) hi) entries) / 4"

definition determineUserPersona :: "UserEnergyProfile \<Rightarrow> UserPersona" where
  "determineUserPersona profile =
     (case find (\<lambda>p. type p = Daily) (energyPatterns profile) of
        None \<Rightarrow> inconsistentPersona
      | Some dailyPattern \<Rightarrow>
          (let morningEnergy = labelRangeEnergy ''06:00'' ''10:00'' (pattern dailyPattern);
               eveningEnergy = labelRangeEnergy ''18:00'' ''22:00'' (pattern dailyPattern)
           in if morningEnergy > eveningEnergy + 1 / 2 then earlyBirdPersona
              else if eveningEnergy > morningEnergy + 1 / 2 then nightOwlPersona
              else flexiblePersona))"

subsection \<open>calculateProductivityMetrics\<close>

definition calculateEnergyUtilization ::
  "UserEnergyProfile \<Rightarrow> EnergyDataPoint list \<Rightarrow> jsnumber" where
  "calculateEnergyUtilization profile recentData =
     (let highEnergyData =
            filter (\<lambda>d. energyLevel d = High \<or> energyLevel d = VeryHigh) recentData;
          utilizedHighEnergy =
            length (filter (\<lambda>d. sessionCompleted d = Some True) highEnergyData)
      in if length highEnergyData > 0
         then jsMul (jsDiv (Num (of_nat utilizedHighEnergy))
                           (Num (of_nat (length highEnergyData))))
                    (Num 100)
         else Num 50)"

text \<open>\<^verbatim>\<open>slice(-14)\<close>: the last fourteen elements, or all of a shorter list.\<close>

definition sliceLast14 :: "'a list \<Rightarrow> 'a list" where
  "sliceLast14 xs = drop (length xs - 14) xs"

definition calculateProductivityMetrics ::
  "UserEnergyProfile \<Rightarrow> SessionFeedback list \<Rightarrow> 'plan list \<Rightarrow> ProductivityMetrics" where
  "calculateProductivityMetrics profile recentFeedback studyPlans =
     (let recentData = sliceLast14 (energyHistory profile);
          focus =
            (if length recentFeedback > 0
             then jsDiv (foldl (\<lambda>sum f. jsAdd sum (jsMul (Num (of_nat (focusRating f))) (Num 20)))
                               (Num 0) recentFeedback)
                        (Num (of_nat (length recentFeedback)))
             else Num 50);
          completedSessions =
            length (filter (\<lambda>d. sessionCompleted d = Some True) recentData);
          completion =
            (if length recentData > 0
             then jsMul (jsDiv (Num (of_nat completedSessions))
                               (Num (of_nat (length recentData))))
                        (Num 100)
             else Num 0);
          energyValues = map (\<lambda>d. Num (energyLevelToNumber (energyLevel d))) recentData;
          avgEnergy =
            jsDiv (foldl (\<lambda>sum e. jsAdd sum e) (Num 0) energyValues)
                  (Num (of_nat (length energyValues)));
          variance =
            jsDiv (foldl (\<lambda>sum e. jsAdd sum (jsPow2 (jsSub e avgEnergy))) (Num 0) energyValues)
                  (Num (of_nat (length energyValues)));
          consistency = jsMax (Num 0) (jsSub (Num 100) (jsMul variance (Num 20)));
          utilization = calculateEnergyUtilization profile recentData
      in \<lparr>focusScore = jsRound focus,
          completionRate = jsRound completion,
          consistencyScore = jsRound consistency,
          energyUtilization = jsRound utilization,
          adaptationSuccess = Num 75,
          streakQuality = Num 80,
          timeOptimization = Num 70\<rparr>)"

section \<open>recordEnergyData on a store of objects\<close>

text \<open>
  \<open>recordEnergyData\<close> once more, on a store, to say what it does to the objects it is
  given. The store is a list of objects and a reference is an index into it. Creating an
  object (an object literal, an array spread, \<^verbatim>\<open>filter\<close>) appends it to the store;
  assigning to a field of an object, or pushing onto an array, would replace the object at
  its index. A profile object refers to its history array, its study times, its patterns
  and its preferences; a history array refers to its data points. The study times and the
  patterns are kept as one object each.
\<close>

type_synonym ref = nat

record ProfileObject =
  currentEnergyLevelField :: EnergyLevel
  energyHistoryRef :: ref
  optimalStudyTimesRef :: ref
  energyPatternsRef :: ref
  lastUpdatedField :: int
  adaptivePreferencesRef :: ref

datatype object =
  ProfileObj ProfileObject
| HistoryObj "ref list"
| PointObj EnergyDataPoint
| SlotsObj "TimeSlot list"
| PatternsObj "EnergyPattern list"
| PreferencesObj AdaptivePreferences

type_synonym heap = "object list"

text \<open>
  Following a reference. \<open>None\<close> is a reference to no object of the store, which
  JavaScript does not have; the functions below return \<open>None\<close> there, and where an
  object is not of the kind its type declares.
\<close>

definition deref :: "heap \<Rightarrow> ref \<Rightarrow> object option" where
  "deref h r = (if r < length h then Some (h ! r) else None)"

definition alloc :: "heap \<Rightarrow> object \<Rightarrow> ref \<times> heap" where
  "alloc h obj = (length h, h @ [obj])"

text \<open>What the store holds behind a reference, as a value.\<close>

definition getPoint :: "heap \<Rightarrow> ref \<Rightarrow> EnergyDataPoint option" where
  "getPoint h r = (case deref h r of Some (PointObj point) \<Rightarrow> Some point | _ \<Rightarrow> None)"

fun readPoints :: "heap \<Rightarrow> ref list \<Rightarrow> EnergyDataPoint list option" where
  "readPoints h [] = Some []"
| "readPoints h (r # rs) =
     (case getPoint h r of
        None \<Rightarrow> None
      | Some point \<Rightarrow>
          (case readPoints h rs of None \<Rightarrow> None | Some points \<Rightarrow> Some (point # points)))"

definition readHistory :: "heap \<Rightarrow> ref \<Rightarrow> EnergyDataPoint list option" where
  "readHistory h r =
     (case deref h r of Some (HistoryObj refs) \<Rightarrow> readPoints h refs | _ \<Rightarrow> None)"

definition readSlots :: "heap \<Rightarrow> ref \<Rightarrow> TimeSlot list option" where
  "readSlots h r = (case deref h r of Some (SlotsObj slots) \<Rightarrow> Some slots | _ \<Rightarrow> None)"

definition readPatterns :: "heap \<Rightarrow> ref \<Rightarrow> EnergyPattern list option" where
  "readPatterns h r =
     (case deref h r of Some (PatternsObj patterns) \<Rightarrow> Some patterns | _ \<Rightarrow> None)"

definition readPreferences :: "heap \<Rightarrow> ref \<Rightarrow> AdaptivePreferences option" where
  "readPreferences h r =
     (case deref h r of Some (PreferencesObj prefs) \<Rightarrow> Some prefs | _ \<Rightarrow> None)"

definition readProfile :: "heap \<Rightarrow> ref \<Rightarrow> UserEnergyProfile option" where
  "readProfile h r =
     (case deref h r of
        Some (ProfileObj props) \<Rightarrow>
          (case readHistory h (energyHistoryRef props) of
             None \<Rightarrow> None
           | Some history \<Rightarrow>
          (case readSlots h (optimalStudyTimesRef props) of
             None \<Rightarrow> None
           | Some slots \<Rightarrow>
          (case readPatterns h (energyPatternsRef props) of
             None \<Rightarrow> None
           | Some patterns \<Rightarrow>
          (case readPreferences h (adaptivePreferencesRef props) of
             None \<Rightarrow> None
           | Some prefs \<Rightarrow>
               Some \<lparr>currentEnergyLevel = currentEnergyLevelField props,
                     energyHistory = history,
                     optimalStudyTimes = slots,
                     energyPatterns = patterns,
                     lastUpdated = lastUpdatedField props,
                     adaptivePreferences = prefs\<rparr>))))
      | _ \<Rightarrow> None)"

text \<open>
  The statements of \<open>recordEnergyData\<close> in turn: the object literal \<open>dataPoint\<close>;
  the spread \<^verbatim>\<open>[...currentProfile.energyHistory, dataPoint]\<close>; the
  \<^verbatim>\<open>updatedHistory.filter(...)\<close>, whose callback reads each point through its
  reference; and the returned object literal, which spreads the fields of
  \<open>currentProfile\<close> (the reference to its preferences among them) and overrides five.
  \<open>analyzePatternsFromHistory\<close> and \<open>calculateOptimalStudyTimes\<close> read the array and
  its points, and write only to the maps, entries and arrays they create themselves; they
  are the functions above, applied to what the array holds.
\<close>

definition newDataPoint ::
  "heap \<Rightarrow> int \<Rightarrow> EnergyLevel \<Rightarrow> EnergyContext option \<Rightarrow> rat option \<Rightarrow> bool option
     \<Rightarrow> ref \<times> heap" where
  "newDataPoint h now level ctx productivity' sessionCompleted' =
     alloc h (PointObj \<lparr>timestamp = now, energyLevel = level, context' = ctx,
                        productivity = productivity', sessionCompleted = sessionCompleted'\<rparr>)"

definition spreadHistory :: "heap \<Rightarrow> ref \<Rightarrow> ref \<Rightarrow> (ref \<times> heap) option" where
  "spreadHistory h currentProfile dataPoint =
     (case deref h currentProfile of
        Some (ProfileObj props) \<Rightarrow>
          (case deref h (energyHistoryRef props) of
             Some (HistoryObj refs) \<Rightarrow> Some (alloc h (HistoryObj (refs @ [dataPoint])))
           | _ \<Rightarrow> None)
      | _ \<Rightarrow> None)"

definition filterHistory ::
  "heap \<Rightarrow> ref \<Rightarrow> (EnergyDataPoint \<Rightarrow> bool) \<Rightarrow> (ref \<times> heap) option" where
  "filterHistory h history keep =
     (case deref h history of
        Some (HistoryObj refs) \<Rightarrow>
          Some (alloc h (HistoryObj
                  (filter (\<lambda>r. case getPoint h r of Some point \<Rightarrow> keep point | None \<Rightarrow> False)
                          refs)))
      | _ \<Rightarrow> None)"

definition buildProfile ::
  "int \<Rightarrow> int \<Rightarrow> heap \<Rightarrow> ref \<Rightarrow> EnergyLevel \<Rightarrow> ref \<Rightarrow> (ref \<times> heap) option" where
  "buildProfile tz now h currentProfile level filteredHistory =
     (case deref h currentProfile of
        Some (ProfileObj props) \<Rightarrow>
          (case readHistory h filteredHistory of
             Some points \<Rightarrow>
               (let (patterns, h1) =
                      alloc h (PatternsObj (analyzePatternsFromHistory tz points));
                    (slots, h2) =
                      alloc h1 (SlotsObj (calculateOptimalStudyTimes tz points))
                in Some (alloc h2
                           (ProfileObj
                              (props\<lparr>currentEnergyLevelField := level,
                                     energyHistoryRef := filteredHistory,
                                     lastUpdatedField := now,
                                     energyPatternsRef := patterns,
                                     optimalStudyTimesRef := slots\<rparr>))))
           | None \<Rightarrow> None)
      | _ \<Rightarrow> None)"

definition recordEnergyDataStore ::
  "int \<Rightarrow> int \<Rightarrow> heap \<Rightarrow> ref \<Rightarrow> EnergyLevel \<Rightarrow> EnergyContext option \<Rightarrow> rat option
     \<Rightarrow> bool option \<Rightarrow> (ref \<times> heap) option" where
  "recordEnergyDataStore tz now h currentProfile level ctx productivity' sessionCompleted' =
     (let (dataPoint, h1) = newDataPoint h now level ctx productivity' sessionCompleted'
      in case spreadHistory h1 currentProfile dataPoint of
           None \<Rightarrow> None
         | Some (updatedHistory, h2) \<Rightarrow>
             (let thirtyDaysAgo = now - thirtyDays
              in case filterHistory h2 updatedHistory
                        (\<lambda>point. timestamp point > thirtyDaysAgo) of
                   None \<Rightarrow> None
                 | Some (filteredHistory, h3) \<Rightarrow>
                     buildProfile tz now h3 currentProfile level filteredHistory))"

section \<open>Reference notions of the specification\<close>

text \<open>
  The peak of an aggregate map as the specification words it: the key whose average
  (energy sum over count) is maximal, the first such key in iteration order on a tie.
\<close>

definition specPeakHour :: "(nat \<times> HourlyData) list \<Rightarrow> nat" where
  "specPeakHour hourlyData =
     fst (foldl (\<lambda>(best, bestAvg) (hour, data).
                   if energySum data / count data > bestAvg
                   then (hour, energySum data / count data) else (best, bestAvg))
                (0, 0) hourlyData)"

definition specBestDay :: "(nat \<times> WeeklyData) list \<Rightarrow> nat" where
  "specBestDay weeklyData =
     fst (foldl (\<lambda>(best, bestAvg) (day, data).
                   if weekEnergySum data / weekCount data > bestAvg
                   then (day, weekEnergySum data / weekCount data) else (best, bestAvg))
                (0, 0) weeklyData)"

text \<open>
  The morning and evening energy as the specification words them: over the entries of
  the daily pattern whose time slot is that of an hour between \<open>lo\<close> and \<open>hi\<close>, with
  the fixed divisor 4.
\<close>

definition slotHourIn :: "nat \<Rightarrow> nat \<Rightarrow> PatternEntry \<Rightarrow> bool" where
  "slotHourIn lo hi p = list_ex (\<lambda>hour. timeSlot p = hourLabel hour) [lo..<hi + 1]"

definition hourRangeEnergy :: "nat \<Rightarrow> nat \<Rightarrow> PatternEntry list \<Rightarrow> rat" where
  "hourRangeEnergy lo hi entries =
     sum_list (map averageEnergy (filter (slotHourIn lo hi) entries)) / 4"

text \<open>
  The statistics of one hour of the day, read off the history: the samples of that
  hour, their average energy and the fraction of them with a completed session.
\<close>

definition samplesAt :: "int \<Rightarrow> EnergyDataPoint list \<Rightarrow> nat \<Rightarrow> EnergyDataPoint list" where
  "samplesAt tz history hour = filter (\<lambda>point. getHours tz (timestamp point) = hour) history"

definition hourAverageEnergy :: "int \<Rightarrow> EnergyDataPoint list \<Rightarrow> nat \<Rightarrow> rat" where
  "hourAverageEnergy tz history hour =
     sum_list (map (\<lambda>point. energyLevelToNumber (energyLevel point)) (samplesAt tz history hour))
       / of_nat (length (samplesAt tz history hour))"

definition hourCompletionRate :: "int \<Rightarrow> EnergyDataPoint list \<Rightarrow> nat \<Rightarrow> rat" where
  "hourCompletionRate tz history hour =
     of_nat (length (filter (\<lambda>point. sessionCompleted point = Some True)
                            (samplesAt tz history hour)))
       / of_nat (length (samplesAt tz history hour))"

section \<open>Concrete histories and profiles\<close>

definition samplePoint :: "int \<Rightarrow> EnergyLevel \<Rightarrow> bool option \<Rightarrow> EnergyDataPoint" where
  "samplePoint t level completed =
     \<lparr>timestamp = t, energyLevel = level, context' = None, productivity = None,
      sessionCompleted = completed\<rparr>"

text \<open>The instant \<open>minute\<close> minutes after \<open>hour\<close> o'clock UTC on day \<open>day\<close> of the epoch.\<close>

definition atTime :: "int \<Rightarrow> int \<Rightarrow> int \<Rightarrow> int" where
  "atTime day hour minute = day * 86400000 + hour * 3600000 + minute * 60000"

text \<open>
  Six samples at very high energy on a Thursday between 9:00 and 9:05, then one at very
  low energy on the Friday at 14:00.
\<close>

definition peakHistory :: "EnergyDataPoint list" where
  "peakHistory =
     map (\<lambda>i. samplePoint (atTime 0 9 i) VeryHigh (Some True)) [0, 1, 2, 3, 4, 5]
       @ [samplePoint (atTime 1 14 0) VeryLow None]"

text \<open>
  A user who records very high energy seven times between 7:00 and 7:06 of one morning,
  starting from the initial profile.
\<close>

definition morningProfile :: UserEnergyProfile where
  "morningProfile =
     foldl (\<lambda>profile i. recordEnergyData 0 (atTime 0 7 i) profile VeryHigh None None (Some True))
           (initializeEnergyProfile (atTime 0 7 0)) [0, 1, 2, 3, 4, 5, 6]"

text \<open>
  A profile with one sample, recorded at time 0, and the instant exactly thirty days
  later.
\<close>

definition boundaryProfile :: UserEnergyProfile where
  "boundaryProfile = recordEnergyData 0 0 (initializeEnergyProfile 0) Medium None None None"

text \<open>
  A user who records very low energy four times, a minute apart, and asks for
  suggestions a minute later, with no task.
\<close>

definition tiredExperience :: RealTimeUserExperience where
  "tiredExperience =
     \<lparr>energyProfile =
        foldl (\<lambda>profile i. recordEnergyData 0 (atTime 0 9 i) profile VeryLow None None None)
              (initializeEnergyProfile (atTime 0 9 0)) [0, 1, 2, 3],
      currentContext =
        \<lparr>currentTime = atTime 0 9 4, contextDayOfWeek = 4, userPresence = Active,
         deviceType = Desktop, networkStatus = Online, batteryLevel = None,
         ambientLight = None, locationContext = None\<rparr>\<rparr>"

text \<open>
  One more profile: a single sample at very low energy, and suggestions asked for a
  minute later.
\<close>

definition drowsyExperience :: RealTimeUserExperience where
  "drowsyExperience =
     \<lparr>energyProfile =
        recordEnergyData 0 (atTime 0 9 0) (initializeEnergyProfile (atTime 0 8 0)) VeryLow
          None None None,
      currentContext =
        \<lparr>currentTime = atTime 0 9 1, contextDayOfWeek = 4, userPresence = Active,
         deviceType = Desktop, networkStatus = Online, batteryLevel = None,
         ambientLight = None, locationContext = None\<rparr>\<rparr>"

text \<open>
  The scenario of the sample store: a sequence of calls of \<open>recordEnergyData\<close>, each
  with the instant of the call and the level recorded.
\<close>

definition thirtyOneDays :: int where
  "thirtyOneDays = 31 * 24 * 60 * 60 * 1000"

fun recordAll :: "int \<Rightarrow> UserEnergyProfile \<Rightarrow> (int \<times> EnergyLevel) list \<Rightarrow> UserEnergyProfile" where
  "recordAll tz profile [] = profile"
| "recordAll tz profile ((t, level) # rest) =
     recordAll tz (recordEnergyData tz t profile level None None None) rest"

definition earlyCalls :: "(int \<times> EnergyLevel) list" where
  "earlyCalls = [(atTime 0 9 0, VeryLow), (atTime 0 9 30, Low), (atTime 0 10 0, High)]"

text \<open>
  A store with the shared preferences, two data points (one of them 31 days older than the
  append below), and a profile over them; and the profile as a value.
\<close>

definition exampleHeap :: heap where
  "exampleHeap =
     [PreferencesObj defaultAdaptivePreferences,
      PointObj (samplePoint (atTime 0 9 0) Low (Some True)),
      PointObj (samplePoint (atTime 20 9 0) High None),
      HistoryObj [1, 2],
      SlotsObj [],
      PatternsObj [],
      ProfileObj \<lparr>currentEnergyLevelField = High, energyHistoryRef = 3,
                  optimalStudyTimesRef = 4, energyPatternsRef = 5,
                  lastUpdatedField = atTime 20 9 0, adaptivePreferencesRef = 0\<rparr>]"

definition exampleProfile :: UserEnergyProfile where
  "exampleProfile =
     \<lparr>currentEnergyLevel = High,
      energyHistory = [samplePoint (atTime 0 9 0) Low (Some True),
                       samplePoint (atTime 20 9 0) High None],
      optimalStudyTimes = [],
      energyPatterns = [],
      lastUpdated = atTime 20 9 0,
      adaptivePreferences = defaultAdaptivePreferences\<rparr>"

section \<open>The loop of calculateOptimalStudyTimes, for the proofs\<close>

text \<open>What one sample does to the entry of its hour.\<close>

definition perfUpdate :: "EnergyDataPoint \<Rightarrow> HourlyPerformance \<Rightarrow> HourlyPerformance" where
  "perfUpdate point data =
     (let d1 = data\<lparr>perfCount := perfCount data + 1,
                   perfEnergySum := perfEnergySum data + energyLevelToNumber (energyLevel point)\<rparr>;
          d2 = (case productivity point of
                  None \<Rightarrow> d1
                | Some pr \<Rightarrow>
                    if pr \<noteq> 0 then d1\<lparr>productivitySum := productivitySum d1 + pr\<rparr>
                    else d1)
      in if sessionCompleted point = Some True
         then d2\<lparr>completedCount := completedCount d2 + 1\<rparr>
         else d2)"

text \<open>
  The loop invariant: an hour has an entry exactly when it has samples, and the entry
  counts them, sums their energy and counts the completed ones.
\<close>

definition perfAgrees :: "EnergyDataPoint list \<Rightarrow> HourlyPerformance option \<Rightarrow> bool" where
  "perfAgrees samples entry =
     (case entry of
        None \<Rightarrow> samples = []
      | Some data \<Rightarrow>
          samples \<noteq> [] \<and>
          perfCount data = of_nat (length samples) \<and>
          perfEnergySum data =
            sum_list (map (\<lambda>point. energyLevelToNumber (energyLevel point)) samples) \<and>
          completedCount data =
            of_nat (length (filter (\<lambda>point. sessionCompleted point = Some True) samples)))"

section \<open>Properties\<close>

subsection \<open>Evaluation of the concrete inputs\<close>

lemma tiredRecent:
  "filter (\<lambda>point. atTime 0 9 4 - oneHour < timestamp point)
     (energyHistory (energyProfile tiredExperience)) =
   map (\<lambda>i. samplePoint (atTime 0 9 i) VeryLow None) [0, 1, 2, 3]"
  by code_simp

lemma boundaryPatterns: "energyPatterns boundaryProfile = []"
  by code_simp

subsection \<open>Insufficient data\<close>

text \<open>
  Claim C4. For every history with fewer than 7 samples, \<open>analyzePatternsFromHistory\<close>
  and \<open>calculateOptimalStudyTimes\<close> both return the empty list; the result is a value,
  not an error.
\<close>

theorem C4_insufficient_data:
  "length history < 7 \<Longrightarrow>
     analyzePatternsFromHistory tz history = [] \<and> calculateOptimalStudyTimes tz history = []"
  by (simp add: analyzePatternsFromHistory_def calculateOptimalStudyTimes_def)

theorem C4_insufficient_data_witness:
  "length (take 6 peakHistory) < 7 \<and>
   analyzePatternsFromHistory 0 (take 6 peakHistory) = [] \<and>
   calculateOptimalStudyTimes 0 (take 6 peakHistory) = []"
proof -
  have short: "length (take 6 peakHistory) < 7"
    by (simp add: peakHistory_def)
  from C4_insufficient_data [OF short, of 0] short show ?thesis
    by simp
qed

subsection \<open>The persona without a daily pattern\<close>

text \<open>
  Claim C9. For every profile whose pattern list contains no daily pattern,
  \<open>determineUserPersona\<close> returns the persona of type \<open>inconsistent\<close> with confidence
  level exactly 0.1.
\<close>

theorem C9_no_daily_pattern:
  "\<forall>p \<in> set (energyPatterns profile). type p \<noteq> Daily \<Longrightarrow>
     determineUserPersona profile = inconsistentPersona \<and>
     personaType (determineUserPersona profile) = Inconsistent \<and>
     confidenceLevel (determineUserPersona profile) = 1 / 10"
proof -
  assume "\<forall>p \<in> set (energyPatterns profile). type p \<noteq> Daily"
  then have "find (\<lambda>p. type p = Daily) (energyPatterns profile) = None"
    by (simp add: find_None_iff)
  then show ?thesis
    by (simp add: determineUserPersona_def inconsistentPersona_def)
qed

theorem C9_no_daily_pattern_witness:
  "\<not> list_ex (\<lambda>p. type p = Daily) (energyPatterns boundaryProfile) \<and>
   determineUserPersona boundaryProfile = inconsistentPersona \<and>
   personaType (determineUserPersona boundaryProfile) = Inconsistent \<and>
   confidenceLevel (determineUserPersona boundaryProfile) = 1 / 10"
proof -
  have none: "\<forall>p \<in> set (energyPatterns boundaryProfile). type p \<noteq> Daily"
    by (simp add: boundaryPatterns)
  then have "\<not> list_ex (\<lambda>p. type p = Daily) (energyPatterns boundaryProfile)"
    by (simp add: list_ex_iff)
  with C9_no_daily_pattern [OF none] show ?thesis
    by blast
qed

subsection \<open>The metrics of an empty history\<close>

text \<open>
  Claim C7. With the feedback list \<^verbatim>\<open>[{focusRating: 5}]\<close> and an empty energy
  history, \<open>calculateProductivityMetrics\<close> returns the focus score 100 and the
  completion rate 0, as claimed. The consistency score it returns is \<open>NaN\<close>, not the
  claimed 0: the average and the variance of the empty window are both \<open>0 / 0\<close>, and
  \<^verbatim>\<open>Math.max\<close> and \<^verbatim>\<open>Math.round\<close> pass \<open>NaN\<close> on. The completion rate and the
  energy utilization guard the empty window; the variance does not.
\<close>

theorem C7_empty_history_metrics:
  "focusScore (calculateProductivityMetrics (profile\<lparr>energyHistory := []\<rparr>)
                 [feedback\<lparr>focusRating := 5\<rparr>] studyPlans) = Num 100 \<and>
   completionRate (calculateProductivityMetrics (profile\<lparr>energyHistory := []\<rparr>)
                 [feedback\<lparr>focusRating := 5\<rparr>] studyPlans) = Num 0 \<and>
   consistencyScore (calculateProductivityMetrics (profile\<lparr>energyHistory := []\<rparr>)
                 [feedback\<lparr>focusRating := 5\<rparr>] studyPlans) = NaN"
  by (simp add: calculateProductivityMetrics_def sliceLast14_def Let_def jsPow2_def jsSub_def
        floor_eq_iff)

subsection \<open>The break suggestion\<close>

text \<open>
  Claim C8. For every user experience whose energy history has at least 4 samples
  stamped within the last 60 minutes (later than one hour before now), none of which has
  the level \<open>low\<close>, \<open>generateSmartSuggestions\<close> includes the break suggestion, whose
  priority is \<open>medium\<close>. Samples at \<open>very-low\<close> do not block the rule: the witness has
  four of them.
\<close>

theorem C8_break_suggestion:
  "4 \<le> length (filter (\<lambda>point. now - oneHour < timestamp point)
                       (energyHistory (energyProfile ux))) \<Longrightarrow>
   \<forall>point \<in> set (filter (\<lambda>point. now - oneHour < timestamp point)
                       (energyHistory (energyProfile ux))). energyLevel point \<noteq> Low \<Longrightarrow>
   breakSuggestion now \<in> set (generateSmartSuggestions tz now ux tasks studyPlans) \<and>
   priority (breakSuggestion now) = PriorityMedium \<and>
   category (breakSuggestion now) = CategoryBreak"
  by (simp add: generateSmartSuggestions_def recentActivity_def Let_def list_ex_iff
        breakSuggestion_def)

theorem C8_break_suggestion_witness:
  "4 \<le> length (filter (\<lambda>point. atTime 0 9 4 - oneHour < timestamp point)
                       (energyHistory (energyProfile tiredExperience))) \<and>
   list_all (\<lambda>point. energyLevel point = VeryLow)
     (filter (\<lambda>point. atTime 0 9 4 - oneHour < timestamp point)
             (energyHistory (energyProfile tiredExperience))) \<and>
   breakSuggestion (atTime 0 9 4)
     \<in> set (generateSmartSuggestions 0 (atTime 0 9 4) tiredExperience [] ([] :: unit list))"
proof -
  have many: "4 \<le> length (filter (\<lambda>point. atTime 0 9 4 - oneHour < timestamp point)
                       (energyHistory (energyProfile tiredExperience)))"
    by (simp add: tiredRecent)
  have veryLow: "list_all (\<lambda>point. energyLevel point = VeryLow)
                   (filter (\<lambda>point. atTime 0 9 4 - oneHour < timestamp point)
                           (energyHistory (energyProfile tiredExperience)))"
    by (simp add: tiredRecent samplePoint_def)
  then have noLow: "\<forall>point \<in> set (filter (\<lambda>point. atTime 0 9 4 - oneHour < timestamp point)
                       (energyHistory (energyProfile tiredExperience))).
                   energyLevel point \<noteq> Low"
    by (simp add: list_all_iff)
  from C8_break_suggestion [OF many noLow] many veryLow show ?thesis
    by blast
qed

subsection \<open>The suggestions at very low energy\<close>

lemma tiredProfile:
  "currentEnergyLevel (energyProfile tiredExperience) = VeryLow"
  "optimalStudyTimes (energyProfile tiredExperience) = []"
  by code_simp+

lemma drowsyProfile:
  "currentEnergyLevel (energyProfile drowsyExperience) = VeryLow"
  "optimalStudyTimes (energyProfile drowsyExperience) = []"
  "energyHistory (energyProfile drowsyExperience) = [samplePoint (atTime 0 9 0) VeryLow None]"
  by code_simp+

text \<open>
  Claim C6, as stated, fails: the energy history matters. After four samples at very low
  energy within the hour, with no task and no optimal study time, the result has two
  suggestions, the low-energy one and the break suggestion.
\<close>

theorem C6_history_counterexample:
  "currentEnergyLevel (energyProfile tiredExperience) = VeryLow \<and>
   optimalStudyTimes (energyProfile tiredExperience) = [] \<and>
   generateSmartSuggestions 0 (atTime 0 9 4) tiredExperience [] ([] :: unit list) =
     [lowEnergySuggestion (atTime 0 9 4), breakSuggestion (atTime 0 9 4)] \<and>
   length (generateSmartSuggestions 0 (atTime 0 9 4) tiredExperience [] ([] :: unit list)) = 2"
  by (simp add: generateSmartSuggestions_def recentActivity_def Let_def tiredProfile tiredRecent
        samplePoint_def)

text \<open>
  Claim C6, amended. For every user experience whose current energy level is
  \<open>very-low\<close>, with an empty task list and empty optimal study times,
  \<open>generateSmartSuggestions\<close> returns the low-energy suggestion, of priority \<open>high\<close>,
  followed by the break suggestion when the history has at least 4 samples within the
  last 60 minutes and none of them at level \<open>low\<close>, and by nothing otherwise: exactly
  one suggestion when the break rule does not fire.
\<close>

theorem C6_very_low_suggestions:
  "currentEnergyLevel (energyProfile ux) = VeryLow \<Longrightarrow>
   optimalStudyTimes (energyProfile ux) = [] \<Longrightarrow>
   priority (lowEnergySuggestion now) = PriorityHigh \<and>
   generateSmartSuggestions tz now ux [] studyPlans =
     (if 4 \<le> length (filter (\<lambda>point. now - oneHour < timestamp point)
                          (energyHistory (energyProfile ux))) \<and>
         \<not> list_ex (\<lambda>point. energyLevel point = Low)
              (filter (\<lambda>point. now - oneHour < timestamp point)
                      (energyHistory (energyProfile ux)))
      then [lowEnergySuggestion now, breakSuggestion now]
      else [lowEnergySuggestion now])"
  by (simp add: generateSmartSuggestions_def recentActivity_def Let_def lowEnergySuggestion_def)

theorem C6_very_low_suggestions_witness:
  "currentEnergyLevel (energyProfile drowsyExperience) = VeryLow \<and>
   optimalStudyTimes (energyProfile drowsyExperience) = [] \<and>
   length (filter (\<lambda>point. atTime 0 9 1 - oneHour < timestamp point)
             (energyHistory (energyProfile drowsyExperience))) = 1 \<and>
   generateSmartSuggestions 0 (atTime 0 9 1) drowsyExperience [] ([] :: unit list) =
     [lowEnergySuggestion (atTime 0 9 1)] \<and>
   priority (lowEnergySuggestion (atTime 0 9 1)) = PriorityHigh"
proof -
  have recent: "length (filter (\<lambda>point. atTime 0 9 1 - oneHour < timestamp point)
             (energyHistory (energyProfile drowsyExperience))) = 1"
    by (simp add: drowsyProfile samplePoint_def atTime_def oneHour_def)
  from C6_very_low_suggestions
         [OF drowsyProfile(1) drowsyProfile(2), of "atTime 0 9 1" 0 "[] :: unit list"]
    recent drowsyProfile(1,2)
  show ?thesis
    by simp
qed

subsection \<open>The optimal study times\<close>

lemma map_fst_mapModify: "map fst (mapModify k f m) = map fst m"
  by (induction m) (auto simp: mapModify_def)

lemma map_of_mapModify:
  "map_of (mapModify k f m) k' = (if k' = k then map_option f (map_of m k) else map_of m k')"
  by (induction m) (auto simp: mapModify_def)

lemma mapSet_fresh: "\<not> has m k \<Longrightarrow> mapSet k v m = m @ [(k, v)]"
  by (simp add: mapSet_def)

lemma has_iff_key: "has m k \<longleftrightarrow> k \<in> set (map fst m)"
  by (simp add: has_def map_of_eq_None_iff)

lemma map_of_snoc_fresh:
  "\<not> has m k \<Longrightarrow> map_of (m @ [(k, v)]) k' = (if k' = k then Some v else map_of m k')"
  by (auto simp: has_def map_add_def split: option.splits)

lemma perfStep_alt:
  "perfStep tz m point =
     mapModify (getHours tz (timestamp point)) (perfUpdate point)
       (if has m (getHours tz (timestamp point)) then m
        else m @ [(getHours tz (timestamp point),
                   \<lparr>perfEnergySum = 0, productivitySum = 0, perfCount = 0,
                    completedCount = 0\<rparr>)])"
  unfolding perfStep_def perfUpdate_def Let_def
  by (simp add: mapSet_fresh)

lemma perfStep_keys:
  "map fst (perfStep tz m point) =
     (if has m (getHours tz (timestamp point)) then map fst m
      else map fst m @ [getHours tz (timestamp point)])"
  by (simp add: perfStep_alt map_fst_mapModify)

lemma perfStep_distinct:
  "distinct (map fst m) \<Longrightarrow> distinct (map fst (perfStep tz m point))"
  by (simp add: perfStep_keys has_iff_key)

lemma foldl_perfStep_distinct: "distinct (map fst (foldl (perfStep tz) [] history))"
  by (induction history rule: rev_induct) (simp_all add: perfStep_distinct)

lemma perfStep_lookup:
  "map_of (perfStep tz m point) k =
     (if k = getHours tz (timestamp point)
      then Some (perfUpdate point
                  (case map_of m k of
                     None \<Rightarrow> \<lparr>perfEnergySum = 0, productivitySum = 0, perfCount = 0,
                              completedCount = 0\<rparr>
                   | Some data \<Rightarrow> data))
      else map_of m k)"
proof (cases "has m (getHours tz (timestamp point))")
  case True
  then show ?thesis
    by (auto simp: perfStep_alt map_of_mapModify has_def)
next
  case False
  then have none: "map_of m (getHours tz (timestamp point)) = None"
    by (simp add: has_def)
  from False show ?thesis
    by (simp add: perfStep_alt map_of_mapModify map_of_snoc_fresh none del: map_of_append)
qed

lemma samplesAt_snoc:
  "samplesAt tz (history @ [point]) hour =
     (if getHours tz (timestamp point) = hour then samplesAt tz history hour @ [point]
      else samplesAt tz history hour)"
  by (simp add: samplesAt_def)

lemma perfUpdate_fields:
  "perfCount (perfUpdate point data) = perfCount data + 1"
  "perfEnergySum (perfUpdate point data) =
     perfEnergySum data + energyLevelToNumber (energyLevel point)"
  "completedCount (perfUpdate point data) =
     completedCount data + (if sessionCompleted point = Some True then 1 else 0)"
  by (simp_all add: perfUpdate_def Let_def split: option.splits)

lemma foldl_perfStep_agrees:
  "perfAgrees (samplesAt tz history hour) (map_of (foldl (perfStep tz) [] history) hour)"
proof (induction history rule: rev_induct)
  case Nil
  show ?case
    by (simp add: perfAgrees_def samplesAt_def)
next
  case (snoc point history)
  show ?case
  proof (cases "hour = getHours tz (timestamp point)")
    case False
    with snoc show ?thesis
      by (auto simp add: perfStep_lookup samplesAt_snoc)
  next
    case True
    with snoc show ?thesis
      by (auto simp add: perfStep_lookup samplesAt_snoc perfAgrees_def perfUpdate_fields
            split: option.splits)
  qed
qed

lemma slotFor_member:
  "slot \<in> set (slotFor hour data) \<Longrightarrow>
     startHour slot = hour \<and> endHour slot = hour + 1 \<and>
     slotEnergyLevel slot = perfEnergySum data / perfCount data \<and>
     3 \<le> perfEnergySum data / perfCount data \<and>
     7 / 10 \<le> completedCount data / perfCount data"
  by (auto simp: slotFor_def Let_def split: if_splits)

lemma optimal_slot_entry:
  assumes "slot \<in> set (calculateOptimalStudyTimes tz history)"
  shows "\<exists>data. map_of (foldl (perfStep tz) [] history) (startHour slot) = Some data \<and>
           slot \<in> set (slotFor (startHour slot) data)"
proof -
  from assms obtain hour data where
    entry: "(hour, data) \<in> set (foldl (perfStep tz) [] history)" and
    slot: "slot \<in> set (slotFor hour data)"
    by (auto simp: calculateOptimalStudyTimes_def Let_def split: if_splits)
  from slot have "startHour slot = hour"
    by (simp add: slotFor_member)
  moreover from entry have "map_of (foldl (perfStep tz) [] history) hour = Some data"
    by (simp add: foldl_perfStep_distinct)
  ultimately show ?thesis
    using slot by auto
qed

lemma peakSlots:
  "calculateOptimalStudyTimes 0 peakHistory =
     [\<lparr>startHour = 9, endHour = 10, slotEnergyLevel = 5,
       suitabilityScores =
         \<lparr>reading = 100, writing = 100, problemSolving = 100, creative = 100, review = 75\<rparr>\<rparr>]"
  by code_simp

lemma peakNine:
  "hourCompletionRate 0 peakHistory 9 = 1"
  "hourAverageEnergy 0 peakHistory 9 = 5"
  by code_simp+

text \<open>
  Claim C5. For every history, every time slot returned by
  \<open>calculateOptimalStudyTimes\<close> has an energy level of at least 3, and the completion
  rate of its hour in the history is at least 0.7. The energy level of the slot is the
  average energy of the samples of its hour, of which there is at least one.
\<close>

theorem C5_optimal_slots_qualify:
  "slot \<in> set (calculateOptimalStudyTimes tz history) \<Longrightarrow>
     3 \<le> slotEnergyLevel slot \<and>
     7 / 10 \<le> hourCompletionRate tz history (startHour slot) \<and>
     slotEnergyLevel slot = hourAverageEnergy tz history (startHour slot) \<and>
     samplesAt tz history (startHour slot) \<noteq> [] \<and>
     endHour slot = startHour slot + 1"
proof -
  assume "slot \<in> set (calculateOptimalStudyTimes tz history)"
  then obtain data where
    entry: "map_of (foldl (perfStep tz) [] history) (startHour slot) = Some data" and
    slot: "slot \<in> set (slotFor (startHour slot) data)"
    using optimal_slot_entry by blast
  from foldl_perfStep_agrees [of tz history "startHour slot"] entry
  have agrees:
    "samplesAt tz history (startHour slot) \<noteq> []"
    "perfCount data = of_nat (length (samplesAt tz history (startHour slot)))"
    "perfEnergySum data =
       sum_list (map (\<lambda>point. energyLevelToNumber (energyLevel point))
                     (samplesAt tz history (startHour slot)))"
    "completedCount data =
       of_nat (length (filter (\<lambda>point. sessionCompleted point = Some True)
                              (samplesAt tz history (startHour slot))))"
    by (simp_all add: perfAgrees_def)
  from slotFor_member [OF slot] agrees show ?thesis
    by (simp add: hourAverageEnergy_def hourCompletionRate_def)
qed

theorem C5_optimal_slots_qualify_witness:
  "hd (calculateOptimalStudyTimes 0 peakHistory)
     \<in> set (calculateOptimalStudyTimes 0 peakHistory) \<and>
   startHour (hd (calculateOptimalStudyTimes 0 peakHistory)) = 9 \<and>
   slotEnergyLevel (hd (calculateOptimalStudyTimes 0 peakHistory)) = 5 \<and>
   hourCompletionRate 0 peakHistory 9 = 1 \<and>
   hourAverageEnergy 0 peakHistory 9 = 5"
proof -
  have member: "hd (calculateOptimalStudyTimes 0 peakHistory)
                  \<in> set (calculateOptimalStudyTimes 0 peakHistory)"
    by (simp add: peakSlots)
  have nine: "startHour (hd (calculateOptimalStudyTimes 0 peakHistory)) = 9"
    by (simp add: peakSlots)
  from C5_optimal_slots_qualify [OF member] member nine peakNine show ?thesis
    by (simp add: peakSlots)
qed

subsection \<open>The thirty-day window of the sample store\<close>

lemma record_history:
  "energyHistory (recordEnergyData tz now profile level ctx pr completed) =
     filter (\<lambda>point. now - thirtyDays < timestamp point) (energyHistory profile) @
       [\<lparr>timestamp = now, energyLevel = level, context' = ctx, productivity = pr,
         sessionCompleted = completed\<rparr>]"
  by (simp add: recordEnergyData_def Let_def thirtyDays_def)

lemma recordAll_stamps:
  "timestamp ` set (energyHistory (recordAll tz profile calls))
     \<subseteq> timestamp ` set (energyHistory profile) \<union> fst ` set calls"
proof (induction calls arbitrary: profile)
  case Nil
  show ?case by simp
next
  case (Cons call calls)
  obtain t level where call: "call = (t, level)"
    by (cases call)
  have "timestamp ` set (energyHistory (recordEnergyData tz t profile level None None None))
          \<subseteq> timestamp ` set (energyHistory profile) \<union> {t}"
    by (auto simp: record_history)
  with Cons [of "recordEnergyData tz t profile level None None None"] call show ?case
    by auto
qed

lemma boundaryHistory: "energyHistory boundaryProfile = [samplePoint 0 Medium None]"
  by (simp add: boundaryProfile_def initializeEnergyProfile_def record_history samplePoint_def)

text \<open>
  Claim C3, as stated, fails at the boundary: a sample exactly thirty days old is not
  strictly older than thirty days, and the filter \<^verbatim>\<open>new Date(point.timestamp) > thirtyDaysAgo\<close>
  removes it.
\<close>

theorem C3_boundary_counterexample:
  "samplePoint 0 Medium None \<in> set (energyHistory boundaryProfile) \<and>
   timestamp (samplePoint 0 Medium None) = thirtyDays - thirtyDays \<and>
   samplePoint 0 Medium None
     \<notin> set (energyHistory (recordEnergyData 0 thirtyDays boundaryProfile High None None None))"
  by (simp add: boundaryHistory record_history samplePoint_def)

text \<open>
  Claim C3, amended. For every profile and every recorded sample, the history returned
  by \<open>recordEnergyData\<close> is the old history without the samples stamped thirty days
  before the append or earlier, followed by the new sample. So every sample it contains is
  less than thirty days old; every sample of the old history less than thirty days old is
  retained; a sample exactly thirty days old, or older, is removed. In particular, after
  any number of appends to the initial profile, an append at least 31 days after each of
  them leaves exactly the newest sample.
\<close>

theorem C3_thirty_day_window:
  "energyHistory (recordEnergyData tz now profile level ctx pr completed) =
     filter (\<lambda>point. now - thirtyDays < timestamp point) (energyHistory profile) @
       [\<lparr>timestamp = now, energyLevel = level, context' = ctx, productivity = pr,
         sessionCompleted = completed\<rparr>] \<and>
   (\<forall>point \<in> set (energyHistory (recordEnergyData tz now profile level ctx pr completed)).
      now - thirtyDays < timestamp point) \<and>
   (\<forall>point \<in> set (energyHistory profile).
      now - thirtyDays < timestamp point \<longrightarrow>
      point \<in> set (energyHistory (recordEnergyData tz now profile level ctx pr completed))) \<and>
   (\<forall>point \<in> set (energyHistory profile).
      timestamp point \<le> now - thirtyDays \<longrightarrow>
      point \<notin> set (energyHistory (recordEnergyData tz now profile level ctx pr completed))) \<and>
   ((\<forall>call \<in> set calls. fst call + thirtyOneDays \<le> now) \<longrightarrow>
      energyHistory (recordEnergyData tz now (recordAll tz (initializeEnergyProfile t0) calls)
                       level ctx pr completed) =
        [\<lparr>timestamp = now, energyLevel = level, context' = ctx, productivity = pr,
          sessionCompleted = completed\<rparr>])"
proof -
  have positive: "now - thirtyDays < now"
    by (simp add: thirtyDays_def)
  have scenario:
    "energyHistory (recordEnergyData tz now (recordAll tz (initializeEnergyProfile t0) calls)
                       level ctx pr completed) =
        [\<lparr>timestamp = now, energyLevel = level, context' = ctx, productivity = pr,
          sessionCompleted = completed\<rparr>]"
    if old: "\<forall>call \<in> set calls. fst call + thirtyOneDays \<le> now"
  proof -
    have "\<not> now - thirtyDays < timestamp point"
      if "point \<in> set (energyHistory (recordAll tz (initializeEnergyProfile t0) calls))"
      for point
    proof -
      from that recordAll_stamps [of tz "initializeEnergyProfile t0" calls]
      have "timestamp point \<in> fst ` set calls"
        by (auto simp: initializeEnergyProfile_def)
      with old have "timestamp point + thirtyOneDays \<le> now"
        by auto
      then show ?thesis
        by (simp add: thirtyOneDays_def thirtyDays_def)
    qed
    then have "filter (\<lambda>point. now - thirtyDays < timestamp point)
                 (energyHistory (recordAll tz (initializeEnergyProfile t0) calls)) = []"
      by (simp add: filter_empty_conv)
    then show ?thesis
      by (simp add: record_history)
  qed
  have older: "point \<notin> set (energyHistory (recordEnergyData tz now profile level ctx pr completed))"
    if "timestamp point \<le> now - thirtyDays" for point
    using that positive by (auto simp: record_history)
  show ?thesis
    using positive scenario older by (auto simp: record_history)
qed

theorem C3_thirty_day_window_witness:
  "list_all (\<lambda>call. fst call + thirtyOneDays \<le> atTime 31 10 0) earlyCalls \<and>
   energyHistory (recordEnergyData 0 (atTime 31 10 0)
                    (recordAll 0 (initializeEnergyProfile 0) earlyCalls)
                    Medium None None None) =
     [samplePoint (atTime 31 10 0) Medium None] \<and>
   samplePoint 0 Medium None \<in> set (energyHistory boundaryProfile) \<and>
   thirtyDays - 1 - thirtyDays < timestamp (samplePoint 0 Medium None) \<and>
   samplePoint 0 Medium None
     \<in> set (energyHistory (recordEnergyData 0 (thirtyDays - 1) boundaryProfile High None None None))"
proof -
  have old: "list_all (\<lambda>call. fst call + thirtyOneDays \<le> atTime 31 10 0) earlyCalls"
    by (simp add: earlyCalls_def atTime_def thirtyOneDays_def)
  then have oldAll: "\<forall>call \<in> set earlyCalls. fst call + thirtyOneDays \<le> atTime 31 10 0"
    by (simp add: list_all_iff)
  have member: "samplePoint 0 Medium None \<in> set (energyHistory boundaryProfile)"
    by (simp add: boundaryHistory)
  have recent: "thirtyDays - 1 - thirtyDays < timestamp (samplePoint 0 Medium None)"
    by (simp add: samplePoint_def)
  note scenario =
    C3_thirty_day_window [of 0 "atTime 31 10 0" boundaryProfile Medium None None None
                             earlyCalls 0,
                          THEN conjunct2, THEN conjunct2, THEN conjunct2, THEN conjunct2]
  from scenario oldAll
  have "energyHistory (recordEnergyData 0 (atTime 31 10 0)
                    (recordAll 0 (initializeEnergyProfile 0) earlyCalls)
                    Medium None None None) =
     [\<lparr>timestamp = atTime 31 10 0, energyLevel = Medium, context' = None,
       productivity = None, sessionCompleted = None\<rparr>]"
    by (rule mp)
  then have alone: "energyHistory (recordEnergyData 0 (atTime 31 10 0)
                    (recordAll 0 (initializeEnergyProfile 0) earlyCalls)
                    Medium None None None) =
     [samplePoint (atTime 31 10 0) Medium None]"
    by (simp only: samplePoint_def)
  note retention =
    C3_thirty_day_window [of 0 "thirtyDays - 1" boundaryProfile High None None None,
                          THEN conjunct2, THEN conjunct2, THEN conjunct1]
  from retention member recent
  have kept: "samplePoint 0 Medium None
     \<in> set (energyHistory (recordEnergyData 0 (thirtyDays - 1) boundaryProfile High None None None))"
    by blast
  from old alone member recent kept show ?thesis
    by blast
qed

subsection \<open>The peak hour and the best day\<close>

lemma getIndex0_undefined: "orZeroOpt (getIndex0 m k) = 0"
  by (simp add: getIndex0_def orZeroOpt_def split: option.splits)

text \<open>
  What the two reducers compute: each average is compared with 0, so the last entry of
  the map wins whenever its average is positive.
\<close>

lemma peakHourOf_last:
  "m \<noteq> [] \<Longrightarrow> 0 < energySum (snd (last m)) / count (snd (last m)) \<Longrightarrow>
     peakHourOf m = fst (last m)"
  by (cases m rule: rev_cases) (simp_all add: peakHourOf_def getIndex0_undefined split_beta)

lemma bestDayOf_last:
  "m \<noteq> [] \<Longrightarrow> 0 < weekEnergySum (snd (last m)) / weekCount (snd (last m)) \<Longrightarrow>
     bestDayOf m = fst (last m)"
  by (cases m rule: rev_cases) (simp_all add: bestDayOf_def getIndex0_undefined split_beta)

lemma energyLevelToNumber_positive: "0 < energyLevelToNumber level"
  by (cases level) simp_all

lemma hourlyStep_alt:
  "hourlyStep tz m point =
     mapModify (getHours tz (timestamp point))
       (\<lambda>data. data\<lparr>count := count data + 1,
                      energySum := energySum data + energyLevelToNumber (energyLevel point)\<rparr>)
       (if has m (getHours tz (timestamp point)) then m
        else m @ [(getHours tz (timestamp point), \<lparr>total = 0, count = 0, energySum = 0\<rparr>)])"
  by (simp add: hourlyStep_def Let_def mapSet_fresh)

lemma list_all_mapModify:
  "list_all (\<lambda>(k', v). if k' = k then Q (f v) else Q v) m \<Longrightarrow>
     list_all (\<lambda>(k', v). Q v) (mapModify k f m)"
  by (induction m) (auto simp: mapModify_def split: if_splits)

lemma hourlyStep_positive:
  assumes "list_all (\<lambda>(hour, data). 0 < count data \<and> 0 < energySum data) m"
  shows "list_all (\<lambda>(hour, data). 0 < count data \<and> 0 < energySum data) (hourlyStep tz m point)"
  unfolding hourlyStep_alt
proof (rule list_all_mapModify)
  from assms energyLevelToNumber_positive [of "energyLevel point"]
  show "list_all
          (\<lambda>(k', v).
              if k' = getHours tz (timestamp point)
              then 0 < count (v\<lparr>count := count v + 1,
                                 energySum := energySum v + energyLevelToNumber (energyLevel point)\<rparr>) \<and>
                   0 < energySum (v\<lparr>count := count v + 1,
                                 energySum := energySum v + energyLevelToNumber (energyLevel point)\<rparr>)
              else 0 < count v \<and> 0 < energySum v)
          (if has m (getHours tz (timestamp point)) then m
           else m @ [(getHours tz (timestamp point), \<lparr>total = 0, count = 0, energySum = 0\<rparr>)])"
    by (auto simp: list_all_iff add_pos_pos)
qed

lemma hourlyStep_nonempty: "hourlyStep tz m point \<noteq> []"
  by (auto simp: hourlyStep_alt mapModify_def has_def)

lemma foldl_hourlyStep_positive:
  "list_all (\<lambda>(hour, data). 0 < count data \<and> 0 < energySum data)
     (foldl (hourlyStep tz) [] history)"
  by (induction history rule: rev_induct) (simp_all add: hourlyStep_positive)

text \<open>
  So for every history that is not empty the hour the daily recommendation names is the
  last key of the hourly map: the hour of the day that appears last for the first time.
\<close>

lemma peakHourOf_history:
  assumes "history \<noteq> []"
  shows "peakHourOf (foldl (hourlyStep tz) [] history) =
           fst (last (foldl (hourlyStep tz) [] history))"
proof -
  from assms have nonempty: "foldl (hourlyStep tz) [] history \<noteq> []"
    by (cases history rule: rev_cases) (simp_all add: hourlyStep_nonempty)
  then have "last (foldl (hourlyStep tz) [] history) \<in> set (foldl (hourlyStep tz) [] history)"
    by simp
  with foldl_hourlyStep_positive [of tz history]
  have "0 < count (snd (last (foldl (hourlyStep tz) [] history))) \<and>
        0 < energySum (snd (last (foldl (hourlyStep tz) [] history)))"
    by (auto simp: list_all_iff)
  then have "0 < energySum (snd (last (foldl (hourlyStep tz) [] history))) /
                 count (snd (last (foldl (hourlyStep tz) [] history)))"
    by simp
  with nonempty show ?thesis
    by (rule peakHourOf_last)
qed

lemma peakMaps:
  "foldl (hourlyStep 0) [] peakHistory =
     [(9, \<lparr>total = 0, count = 6, energySum = 30\<rparr>),
      (14, \<lparr>total = 0, count = 1, energySum = 1\<rparr>)]"
  "foldl (weeklyStep 0) [] peakHistory =
     [(4, \<lparr>weekEnergySum = 30, weekCount = 6\<rparr>), (5, \<lparr>weekEnergySum = 1, weekCount = 1\<rparr>)]"
  by code_simp+

text \<open>
  Claim C1 says that for every history of length at least 7 the daily recommendation
  names the hour of maximal average energy (the first such hour on a tie), and the weekly
  one the day of maximal average energy. The code does not: on the history
  \<open>peakHistory\<close>, of length 7, the hour 9 has average 5 and the hour 14 average 1, and
  the recommendation names 14:00; Thursday has average 5 and Friday average 1, and the
  recommendation names Friday.
\<close>

theorem C1_peak_names_last_entry:
  "length peakHistory = 7 \<and>
   map recommendations (analyzePatternsFromHistory 0 peakHistory) =
     [[''Your peak energy hour is 14:00 - schedule important tasks then''],
      [''Friday is your most productive day'']] \<and>
   specPeakHour (foldl (hourlyStep 0) [] peakHistory) = 9 \<and>
   specBestDay (foldl (weeklyStep 0) [] peakHistory) = 4 \<and>
   getDayName 4 = ''Thursday''"
  by code_simp

subsection \<open>The persona of a morning user\<close>

lemma morningHistory:
  "energyHistory morningProfile =
     map (\<lambda>i. samplePoint (atTime 0 7 i) VeryHigh (Some True)) [0, 1, 2, 3, 4, 5, 6]"
  by code_simp

lemma morningPatterns:
  "energyPatterns morningProfile = analyzePatternsFromHistory 0 (energyHistory morningProfile)"
  by (simp add: morningProfile_def recordEnergyData_def Let_def)

lemma morningAnalysis:
  "analyzePatternsFromHistory 0
     (map (\<lambda>i. samplePoint (atTime 0 7 i) VeryHigh (Some True)) [0, 1, 2, 3, 4, 5, 6]) =
   [\<lparr>type = Daily,
     pattern = [\<lparr>timeSlot = ''7:00'', averageEnergy = 5, confidence = 1\<rparr>],
     recommendations = [''Your peak energy hour is 7:00 - schedule important tasks then'']\<rparr>,
    \<lparr>type = Weekly,
     pattern = [\<lparr>timeSlot = ''Thursday'', averageEnergy = 5, confidence = 1\<rparr>],
     recommendations = [''Thursday is your most productive day'']\<rparr>]"
  by code_simp

text \<open>
  The hours whose label \<^verbatim>\<open>`${hour}:00`\<close> passes the two string comparisons: 0 and 10
  for the morning, 1 and 18 to 22 for the evening.
\<close>

lemma labelHours:
  "map (\<lambda>hour. str_le ''06:00'' (hourLabel hour) \<and> str_le (hourLabel hour) ''10:00'') [0..<24] =
   map (\<lambda>hour. hour = 0 \<or> hour = 10) [0..<24]"
  "map (\<lambda>hour. str_le ''18:00'' (hourLabel hour) \<and> str_le (hourLabel hour) ''22:00'') [0..<24] =
   map (\<lambda>hour. hour = 1 \<or> (18 \<le> hour \<and> hour \<le> 22)) [0..<24]"
  by code_simp+

text \<open>
  Claim C2 says that the morning energy is the sum of the average energy over the entries
  of the daily pattern whose time slot hour lies between 06:00 and 10:00, divided by 4.
  The code does not: for the user of \<open>morningProfile\<close> the daily pattern has the single
  entry 7:00 with average 5, so the morning energy of the claim is 5/4 and the evening
  energy 0, which makes an early bird of confidence 0.8. The code compares the label
  \<^verbatim>\<open>7:00\<close> with \<^verbatim>\<open>06:00\<close> and \<^verbatim>\<open>10:00\<close> as strings, finds no morning entry, and
  returns the flexible persona of confidence 0.7.
\<close>

theorem C2_morning_hours_missed:
  "map pattern (filter (\<lambda>p. type p = Daily) (energyPatterns morningProfile)) =
     [[\<lparr>timeSlot = ''7:00'', averageEnergy = 5, confidence = 1\<rparr>]] \<and>
   hourRangeEnergy 6 10 [\<lparr>timeSlot = ''7:00'', averageEnergy = 5, confidence = 1\<rparr>] = 5 / 4 \<and>
   hourRangeEnergy 18 22 [\<lparr>timeSlot = ''7:00'', averageEnergy = 5, confidence = 1\<rparr>] = 0 \<and>
   labelRangeEnergy ''06:00'' ''10:00''
     [\<lparr>timeSlot = ''7:00'', averageEnergy = 5, confidence = 1\<rparr>] = 0 \<and>
   determineUserPersona morningProfile = flexiblePersona \<and>
   personaType (determineUserPersona morningProfile) = Flexible \<and>
   confidenceLevel (determineUserPersona morningProfile) = 7 / 10"
proof -
  have patterns: "energyPatterns morningProfile =
   [\<lparr>type = Daily,
     pattern = [\<lparr>timeSlot = ''7:00'', averageEnergy = 5, confidence = 1\<rparr>],
     recommendations = [''Your peak energy hour is 7:00 - schedule important tasks then'']\<rparr>,
    \<lparr>type = Weekly,
     pattern = [\<lparr>timeSlot = ''Thursday'', averageEnergy = 5, confidence = 1\<rparr>],
     recommendations = [''Thursday is your most productive day'']\<rparr>]"
    by (simp only: morningPatterns morningHistory morningAnalysis)
  have bySpec:
    "hourRangeEnergy 6 10 [\<lparr>timeSlot = ''7:00'', averageEnergy = 5, confidence = 1\<rparr>] = 5 / 4"
    "hourRangeEnergy 18 22 [\<lparr>timeSlot = ''7:00'', averageEnergy = 5, confidence = 1\<rparr>] = 0"
    by code_simp+
  have byCode:
    "labelRangeEnergy ''06:00'' ''10:00''
       [\<lparr>timeSlot = ''7:00'', averageEnergy = 5, confidence = 1\<rparr>] = 0"
    "labelRangeEnergy ''18:00'' ''22:00''
       [\<lparr>timeSlot = ''7:00'', averageEnergy = 5, confidence = 1\<rparr>] = 0"
    by code_simp+
  have persona: "determineUserPersona morningProfile = flexiblePersona"
    by (simp add: determineUserPersona_def patterns byCode)
  show ?thesis
    by (simp add: patterns bySpec byCode persona flexiblePersona_def)
qed

subsection \<open>What recordEnergyData returns, and what it leaves alone\<close>

lemma deref_append: "deref h r = Some obj \<Longrightarrow> deref (h @ new) r = Some obj"
  by (auto simp: deref_def nth_append split: if_splits)

lemma deref_fresh: "deref (h @ obj # new) (length h) = Some obj"
  by (simp add: deref_def)

lemma getPoint_append: "getPoint h r = Some point \<Longrightarrow> getPoint (h @ new) r = Some point"
  by (auto simp: getPoint_def deref_append split: option.splits object.splits)

lemma readPoints_append:
  "readPoints h rs = Some points \<Longrightarrow> readPoints (h @ new) rs = Some points"
  by (induction rs arbitrary: points) (auto simp: getPoint_append split: option.splits)

lemma readHistory_append:
  "readHistory h r = Some points \<Longrightarrow> readHistory (h @ new) r = Some points"
  by (auto simp: readHistory_def deref_append readPoints_append split: option.splits object.splits)

lemma readSlots_append: "readSlots h r = Some slots \<Longrightarrow> readSlots (h @ new) r = Some slots"
  by (auto simp: readSlots_def deref_append split: option.splits object.splits)

lemma readPatterns_append:
  "readPatterns h r = Some patterns \<Longrightarrow> readPatterns (h @ new) r = Some patterns"
  by (auto simp: readPatterns_def deref_append split: option.splits object.splits)

lemma readPreferences_append:
  "readPreferences h r = Some prefs \<Longrightarrow> readPreferences (h @ new) r = Some prefs"
  by (auto simp: readPreferences_def deref_append split: option.splits object.splits)

lemma readProfile_append:
  "readProfile h r = Some profile \<Longrightarrow> readProfile (h @ new) r = Some profile"
  by (auto simp: readProfile_def deref_append readHistory_append readSlots_append
        readPatterns_append readPreferences_append split: option.splits object.splits)


lemma readPoints_snoc:
  "readPoints h rs = Some points \<Longrightarrow> getPoint h r = Some point \<Longrightarrow>
     readPoints h (rs @ [r]) = Some (points @ [point])"
  by (induction rs arbitrary: points) (auto split: option.splits)

lemma readPoints_filter:
  "readPoints h rs = Some points \<Longrightarrow>
     readPoints h (filter (\<lambda>r. case getPoint h r of Some point \<Rightarrow> P point | None \<Rightarrow> False) rs) =
       Some (filter P points)"
  by (induction rs arbitrary: points) (auto split: option.splits)

lemma filter_refs_append:
  "readPoints h rs = Some points \<Longrightarrow>
     filter (\<lambda>r. case getPoint (h @ new) r of Some point \<Rightarrow> P point | None \<Rightarrow> False) rs =
     filter (\<lambda>r. case getPoint h r of Some point \<Rightarrow> P point | None \<Rightarrow> False) rs"
  by (induction rs arbitrary: points) (auto simp: getPoint_append split: option.splits)

lemma spreadHistory_result:
  "deref h currentProfile = Some (ProfileObj props) \<Longrightarrow>
   deref h (energyHistoryRef props) = Some (HistoryObj refs) \<Longrightarrow>
     spreadHistory h currentProfile dataPoint =
       Some (length h, h @ [HistoryObj (refs @ [dataPoint])])"
  by (simp add: spreadHistory_def alloc_def)

lemma filterHistory_result:
  "deref h history = Some (HistoryObj refs) \<Longrightarrow>
     filterHistory h history keep =
       Some (length h,
             h @ [HistoryObj
                    (filter (\<lambda>r. case getPoint h r of Some point \<Rightarrow> keep point | None \<Rightarrow> False)
                            refs)])"
  by (simp add: filterHistory_def alloc_def)

lemma buildProfile_result:
  "deref h currentProfile = Some (ProfileObj props) \<Longrightarrow>
   readHistory h filteredHistory = Some points \<Longrightarrow>
     buildProfile tz now h currentProfile level filteredHistory =
       Some (length h + 2,
             h @ [PatternsObj (analyzePatternsFromHistory tz points),
                  SlotsObj (calculateOptimalStudyTimes tz points),
                  ProfileObj
                    (props\<lparr>currentEnergyLevelField := level,
                           energyHistoryRef := filteredHistory,
                           lastUpdatedField := now,
                           energyPatternsRef := length h,
                           optimalStudyTimesRef := length h + 1\<rparr>)])"
  by (simp add: buildProfile_def alloc_def)

lemma exampleInput: "readProfile exampleHeap 6 = Some exampleProfile"
  by code_simp

lemma exampleRecorded:
  "energyHistory (recordEnergyData 0 (atTime 31 9 0) exampleProfile Medium None None None) =
     [samplePoint (atTime 20 9 0) High None, samplePoint (atTime 31 9 0) Medium None]"
  by code_simp

text \<open>
  Claim C10. For every input profile and every recorded sample, the profile returned by
  \<open>recordEnergyData\<close> has the adaptive preferences of the input profile, the level
  just recorded as its current energy level, and the patterns and optimal study times
  computed by \<open>analyzePatternsFromHistory\<close> and \<open>calculateOptimalStudyTimes\<close> from the
  pruned history it returns; the input profile itself is unchanged. On the store: the
  call returns a reference to a new object; every object of the store before the call is
  in the store after it, at its place and as it was, so the input profile reads as
  before; and the new object reads as the value the function \<open>recordEnergyData\<close>
  computes from the input profile.
\<close>

theorem C10_record_store_frame:
  assumes input: "readProfile h currentProfile = Some profile"
  shows "\<exists>result h'.
           recordEnergyDataStore tz now h currentProfile level ctx pr completed =
             Some (result, h') \<and>
           take (length h) h' = h \<and>
           length h \<le> result \<and>
           readProfile h' currentProfile = Some profile \<and>
           readProfile h' result =
             Some (recordEnergyData tz now profile level ctx pr completed) \<and>
           adaptivePreferences (recordEnergyData tz now profile level ctx pr completed) =
             adaptivePreferences profile \<and>
           currentEnergyLevel (recordEnergyData tz now profile level ctx pr completed) = level \<and>
           energyPatterns (recordEnergyData tz now profile level ctx pr completed) =
             analyzePatternsFromHistory tz
               (energyHistory (recordEnergyData tz now profile level ctx pr completed)) \<and>
           optimalStudyTimes (recordEnergyData tz now profile level ctx pr completed) =
             calculateOptimalStudyTimes tz
               (energyHistory (recordEnergyData tz now profile level ctx pr completed))"
proof -
  define dp where
    "dp = \<lparr>timestamp = now, energyLevel = level, context' = ctx, productivity = pr,
            sessionCompleted = completed\<rparr>"
  from input obtain props oldRefs where
    props: "deref h currentProfile = Some (ProfileObj props)" and
    oldRefs: "deref h (energyHistoryRef props) = Some (HistoryObj oldRefs)" and
    points: "readPoints h oldRefs = Some (energyHistory profile)" and
    slots: "readSlots h (optimalStudyTimesRef props) = Some (optimalStudyTimes profile)" and
    patterns: "readPatterns h (energyPatternsRef props) = Some (energyPatterns profile)" and
    prefs: "readPreferences h (adaptivePreferencesRef props) = Some (adaptivePreferences profile)" and
    level: "currentEnergyLevelField props = currentEnergyLevel profile" and
    updated: "lastUpdatedField props = lastUpdated profile"
    by (auto simp: readProfile_def readHistory_def split: option.splits object.splits)
  define h1 where "h1 = h @ [PointObj dp]"
  define h2 where "h2 = h1 @ [HistoryObj (oldRefs @ [length h])]"
  define kept where
    "kept = filter (\<lambda>r. case getPoint h2 r of
                          Some point \<Rightarrow> timestamp point > now - thirtyDays
                        | None \<Rightarrow> False)
                   (oldRefs @ [length h])"
  define h3 where "h3 = h2 @ [HistoryObj kept]"
  define filtered where
    "filtered = filter (\<lambda>point. timestamp point > now - thirtyDays) (energyHistory profile @ [dp])"
  define newProps where
    "newProps = props\<lparr>currentEnergyLevelField := level,
                       energyHistoryRef := length h2,
                       lastUpdatedField := now,
                       energyPatternsRef := length h3,
                       optimalStudyTimesRef := length h3 + 1\<rparr>"
  define h6 where
    "h6 = h3 @ [PatternsObj (analyzePatternsFromHistory tz filtered),
                SlotsObj (calculateOptimalStudyTimes tz filtered),
                ProfileObj newProps]"
  have h2_eq: "h2 = h @ [PointObj dp, HistoryObj (oldRefs @ [length h])]"
    by (simp add: h2_def h1_def)
  have h3_eq: "h3 = h @ [PointObj dp, HistoryObj (oldRefs @ [length h]), HistoryObj kept]"
    by (simp add: h3_def h2_eq)
  have h6_eq: "h6 = h @ [PointObj dp, HistoryObj (oldRefs @ [length h]), HistoryObj kept,
                         PatternsObj (analyzePatternsFromHistory tz filtered),
                         SlotsObj (calculateOptimalStudyTimes tz filtered),
                         ProfileObj newProps]"
    by (simp add: h6_def h3_eq)
  have step1: "newDataPoint h now level ctx pr completed = (length h, h1)"
    by (simp add: newDataPoint_def alloc_def h1_def dp_def)
  have "deref h1 currentProfile = Some (ProfileObj props)"
    unfolding h1_def using props by (rule deref_append)
  moreover have "deref h1 (energyHistoryRef props) = Some (HistoryObj oldRefs)"
    unfolding h1_def using oldRefs by (rule deref_append)
  ultimately have step2: "spreadHistory h1 currentProfile (length h) = Some (length h1, h2)"
    unfolding h2_def by (rule spreadHistory_result)
  have "deref h2 (length h1) = Some (HistoryObj (oldRefs @ [length h]))"
    by (simp add: h2_def deref_def)
  then have step3:
    "filterHistory h2 (length h1) (\<lambda>point. timestamp point > now - thirtyDays) =
       Some (length h2, h3)"
    unfolding h3_def kept_def by (rule filterHistory_result)
  have newPoint: "getPoint h2 (length h) = Some dp"
    by (simp add: h2_eq getPoint_def deref_fresh)
  have "readPoints h2 oldRefs = Some (energyHistory profile)"
    unfolding h2_eq using points by (rule readPoints_append)
  from this newPoint have all: "readPoints h2 (oldRefs @ [length h]) = Some (energyHistory profile @ [dp])"
    by (rule readPoints_snoc)
  then have "readPoints h2 kept = Some filtered"
    unfolding kept_def filtered_def by (rule readPoints_filter)
  then have keptPoints: "readPoints h3 kept = Some filtered"
    unfolding h3_def by (rule readPoints_append)
  have readFiltered: "readHistory h3 (length h2) = Some filtered"
    using keptPoints by (simp add: readHistory_def h3_def deref_def)
  have "deref h3 currentProfile = Some (ProfileObj props)"
    unfolding h3_eq using props by (rule deref_append)
  from this readFiltered
  have step4: "buildProfile tz now h3 currentProfile level (length h2) = Some (length h3 + 2, h6)"
    unfolding h6_def newProps_def by (rule buildProfile_result)
  have run: "recordEnergyDataStore tz now h currentProfile level ctx pr completed =
               Some (length h3 + 2, h6)"
    by (simp add: recordEnergyDataStore_def step1 step2 step3 step4)
  have old: "take (length h) h6 = h"
    by (simp add: h6_eq)
  have fresh: "length h \<le> length h3 + 2"
    by (simp add: h3_eq)
  have unchanged: "readProfile h6 currentProfile = Some profile"
    unfolding h6_eq using input by (rule readProfile_append)
  have pure: "recordEnergyData tz now profile level ctx pr completed =
                profile\<lparr>currentEnergyLevel := level,
                         energyHistory := filtered,
                         lastUpdated := now,
                         energyPatterns := analyzePatternsFromHistory tz filtered,
                         optimalStudyTimes := calculateOptimalStudyTimes tz filtered\<rparr>"
    by (simp add: recordEnergyData_def Let_def filtered_def dp_def)
  have "readHistory h6 (length h2) = Some filtered"
    unfolding h6_def using readFiltered by (rule readHistory_append)
  moreover have "readPatterns h6 (length h3) = Some (analyzePatternsFromHistory tz filtered)"
    by (simp add: readPatterns_def h6_def deref_def)
  moreover have "readSlots h6 (length h3 + 1) = Some (calculateOptimalStudyTimes tz filtered)"
    by (simp add: readSlots_def h6_def deref_def nth_append)
  moreover have "readPreferences h6 (adaptivePreferencesRef props) =
                   Some (adaptivePreferences profile)"
    unfolding h6_eq using prefs by (rule readPreferences_append)
  moreover have "deref h6 (length h3 + 2) = Some (ProfileObj newProps)"
    by (simp add: h6_def deref_def nth_append)
  ultimately have returned: "readProfile h6 (length h3 + 2) =
                    Some (recordEnergyData tz now profile level ctx pr completed)"
    by (simp add: readProfile_def newProps_def pure)
  have fields:
    "adaptivePreferences (recordEnergyData tz now profile level ctx pr completed) =
       adaptivePreferences profile"
    "currentEnergyLevel (recordEnergyData tz now profile level ctx pr completed) = level"
    "energyPatterns (recordEnergyData tz now profile level ctx pr completed) =
       analyzePatternsFromHistory tz
         (energyHistory (recordEnergyData tz now profile level ctx pr completed))"
    "optimalStudyTimes (recordEnergyData tz now profile level ctx pr completed) =
       calculateOptimalStudyTimes tz
         (energyHistory (recordEnergyData tz now profile level ctx pr completed))"
    by (simp_all add: pure)
  from run old fresh unchanged returned fields show ?thesis
    by blast
qed

theorem C10_record_store_frame_witness:
  "readProfile exampleHeap 6 = Some exampleProfile \<and>
   (\<exists>result h'.
      recordEnergyDataStore 0 (atTime 31 9 0) exampleHeap 6 Medium None None None =
        Some (result, h') \<and>
      take (length exampleHeap) h' = exampleHeap \<and>
      length exampleHeap \<le> result \<and>
      readProfile h' 6 = Some exampleProfile \<and>
      readProfile h' result =
        Some (recordEnergyData 0 (atTime 31 9 0) exampleProfile Medium None None None)) \<and>
   energyHistory (recordEnergyData 0 (atTime 31 9 0) exampleProfile Medium None None None) =
     [samplePoint (atTime 20 9 0) High None, samplePoint (atTime 31 9 0) Medium None]"
proof -
  from C10_record_store_frame [OF exampleInput, of 0 "atTime 31 9 0" Medium None None None]
  have "\<exists>result h'.
      recordEnergyDataStore 0 (atTime 31 9 0) exampleHeap 6 Medium None None None =
        Some (result, h') \<and>
      take (length exampleHeap) h' = exampleHeap \<and>
      length exampleHeap \<le> result \<and>
      readProfile h' 6 = Some exampleProfile \<and>
      readProfile h' result =
        Some (recordEnergyData 0 (atTime 31 9 0) exampleProfile Medium None None None)"
    by blast
  with exampleInput exampleRecorded show ?thesis
    by blast
qed

end
